theory Spec2Isabelle
  imports Complex_Main "HOL-Library.Sublist"
begin

section \<open>Blip2Base: a shallow embedding of \<open>seed_qformer/blip2.py\<close>\<close>

text \<open>
  The module is glue over a deep-learning framework. Every call into the framework or
  into a sibling module whose source is not part of this file (\<open>utils\<close>, \<open>eva_vit\<close>,
  \<open>clip_vit\<close>, \<open>qformer_causual\<close>, \<open>transformers\<close>, \<open>torch\<close>, \<open>spacy\<close>) is a parameter of the
  model: a function that reads and changes an abstract outside world \<open>'w\<close> and either
  returns a value or raises an exception of an abstract type \<open>'e\<close>. What the methods of
  \<open>Blip2Base\<close> and \<open>LayerNorm\<close> do themselves (their branches, the exceptions they raise,
  the attributes they read and write, the order of their calls) is modelled as written.
\<close>

subsection \<open>Exceptions, attributes, the outside world\<close>

text \<open>
  Exceptions raised by the code of this file carry the name or message the source gives
  them. An exception that comes out of a library call is \<open>LibraryError\<close>; its class is
  visible through class tests, which are parameters as the library is: \<open>is_ImportError\<close>
  for the clause \<open>except ImportError\<close>, \<open>is_RuntimeError\<close> for what a caller of
  \<open>load_from_pretrained\<close> sees as a \<open>RuntimeError\<close>.
\<close>

datatype 'e exn =
    RuntimeError string
  | AssertionError string
  | UnboundLocalError string
  | AttributeError string
  | KeyError string
  | TypeError string
  | IndexError
  | SystemExit int
  | LibraryError 'e

text \<open>An instance attribute is absent until it is assigned.\<close>

datatype 'a attr = Absent | Value 'a

datatype level = INFO | ERROR

record 'w world =
  log_records :: "(level \<times> string) list"
  ext :: 'w

type_synonym ('w, 'e, 'a) lib = "'w \<Rightarrow> ('e + 'a) \<times> 'w"

text \<open>A library call made from the module: it acts on the outside part of the world.\<close>

definition call :: "('w, 'e, 'a) lib \<Rightarrow> 'w world \<Rightarrow> ('e exn + 'a) \<times> 'w world" where
  "call f w =
     (case f (ext w) of
        (Inl e, x) \<Rightarrow> (Inl (LibraryError e), w\<lparr>ext := x\<rparr>)
      | (Inr a, x) \<Rightarrow> (Inr a, w\<lparr>ext := x\<rparr>))"

definition logging :: "level \<Rightarrow> string \<Rightarrow> 'w world \<Rightarrow> 'w world" where
  "logging lv msg w = w\<lparr>log_records := log_records w @ [(lv, msg)]\<rparr>"

subsection \<open>Tensors\<close>

datatype dtype = Float16 | BFloat16 | Float32 | Float64

record 'd tensor =
  shape :: "nat list"
  dtype :: dtype
  requires_grad :: bool
  data :: 'd

subsection \<open>The instance\<close>

text \<open>
  The attributes of a \<open>Blip2Base\<close> object that the methods read or write.
  \<open>lemmatizer_field\<close> is the attribute \<open>_lemmatizer\<close>; Python's \<open>None\<close> is \<open>Value None\<close>.
  \<open>named_parameters\<close> is what \<open>self.named_parameters()\<close> enumerates.
\<close>

record ('v, 'l, 'd) blip2 =
  vit_name :: "string attr"
  visual_encoder :: "'v attr"
  lemmatizer_field :: "'l option attr"
  named_parameters :: "(string \<times> 'd tensor) list"

subsection \<open>\<open>init_vision_encoder\<close>\<close>

text \<open>
  The two encoder constructors (\<open>eva_vit.create_eva_vit_g\<close>, \<open>clip_vit.create_clip_vit_L\<close>),
  the attribute \<open>num_features\<close> of the encoder they return, and the constructor of
  \<open>LayerNorm\<close>, which is \<open>nn.LayerNorm.__init__\<close> (the subclass overrides \<open>forward\<close> only).
\<close>

record ('w, 'e, 'v, 'n) vision_lib =
  create_eva_vit_g :: "int \<Rightarrow> real \<Rightarrow> bool \<Rightarrow> string \<Rightarrow> string \<Rightarrow> ('w, 'e, 'v) lib"
  create_clip_vit_L :: "int \<Rightarrow> bool \<Rightarrow> string \<Rightarrow> string \<Rightarrow> ('w, 'e, 'v) lib"
  num_features :: "'v \<Rightarrow> int"
  LayerNorm :: "int \<Rightarrow> ('w, 'e, 'n) lib"

definition init_vision_encoder ::
  "('w, 'e, 'v, 'n) vision_lib \<Rightarrow> string \<Rightarrow> int \<Rightarrow> real \<Rightarrow> bool \<Rightarrow> string \<Rightarrow> string \<Rightarrow>
   ('v, 'l, 'd) blip2 \<Rightarrow> 'w world \<Rightarrow> ('e exn + 'v \<times> 'n) \<times> ('v, 'l, 'd) blip2 \<times> 'w world" where
  "init_vision_encoder L model_name img_size drop_path_rate use_grad_checkpoint precision
       model_root_dir self w =
     (if model_name \<notin> set [''eva_clip_g'', ''eva2_clip_L'', ''clip_L''] then
        (Inl (AssertionError ''vit model must be eva_clip_g, eva2_clip_L or clip_L''), self, w)
      else
        (case (if model_name = ''eva_clip_g'' then
                 (case call (create_eva_vit_g L img_size drop_path_rate use_grad_checkpoint
                               precision model_root_dir) w of
                    (Inl e, w1) \<Rightarrow> (Inl e, w1)
                  | (Inr v, w1) \<Rightarrow> (Inr (Value v), w1))
               else if model_name = ''clip_L'' then
                 (case call (create_clip_vit_L L img_size use_grad_checkpoint precision
                               model_root_dir) w of
                    (Inl e, w1) \<Rightarrow> (Inl e, w1)
                  | (Inr v, w1) \<Rightarrow> (Inr (Value v), w1))
               else (Inr Absent, w)) of
           (Inl e, w1) \<Rightarrow> (Inl e, self, w1)
         | (Inr Absent, w1) \<Rightarrow> (Inl (UnboundLocalError ''visual_encoder''), self, w1)
         | (Inr (Value v), w1) \<Rightarrow>
             (case call (LayerNorm L (num_features L v)) w1 of
                (Inl e, w2) \<Rightarrow> (Inl e, self, w2)
              | (Inr ln_vision, w2) \<Rightarrow>
                  (Inr (v, ln_vision), self\<lparr>vit_name := Value model_name\<rparr>, w2))))"

subsection \<open>\<open>load_from_pretrained\<close>\<close>

text \<open>
  \<open>utils.is_url\<close> and \<open>utils.download_cached_file\<close>, \<open>os.path.isfile\<close> (which reads the
  file system), \<open>torch.load\<close> and \<open>nn.Module.load_state_dict\<close>. What \<open>torch.load\<close>
  unpickles is a dictionary from strings to state dictionaries, or an object that cannot
  be subscripted with a string. \<open>load_state_dict\<close> works on the parameters of the module
  and returns its report together with the parameters as it left them. \<open>is_RuntimeError\<close>
  tells whether an exception of the library is an instance of \<open>RuntimeError\<close>.
\<close>

datatype 'sd loaded = Dict "string \<rightharpoonup> 'sd" | NotDict

record ('w, 'e, 'sd, 'm, 'd) checkpoint_lib =
  is_url :: "string \<Rightarrow> bool"
  isfile :: "string \<Rightarrow> 'w \<Rightarrow> bool"
  download_cached_file :: "string \<Rightarrow> bool \<Rightarrow> bool \<Rightarrow> ('w, 'e, string) lib"
  torch_load :: "string \<Rightarrow> string \<Rightarrow> ('w, 'e, 'sd loaded) lib"
  load_state_dict ::
    "(string \<times> 'd tensor) list \<Rightarrow> 'sd \<Rightarrow> bool \<Rightarrow> ('w, 'e, 'm \<times> (string \<times> 'd tensor) list) lib"
  is_RuntimeError :: "'e \<Rightarrow> bool"

text \<open>Lines 81 to 87: where the checkpoint comes from.\<close>

definition read_checkpoint ::
  "('w, 'e, 'sd, 'm, 'd) checkpoint_lib \<Rightarrow> string \<Rightarrow> 'w world \<Rightarrow>
   ('e exn + 'sd loaded) \<times> 'w world" where
  "read_checkpoint L url_or_filename w =
     (if is_url L url_or_filename then
        (case call (download_cached_file L url_or_filename False True) w of
           (Inl e, w1) \<Rightarrow> (Inl e, w1)
         | (Inr cached_file, w1) \<Rightarrow> call (torch_load L cached_file ''cpu'') w1)
      else if isfile L url_or_filename (ext w) then
        call (torch_load L url_or_filename ''cpu'') w
      else (Inl (RuntimeError ''checkpoint url or path is invalid''), w))"

definition load_from_pretrained ::
  "('w, 'e, 'sd, 'm, 'd) checkpoint_lib \<Rightarrow> string \<Rightarrow> ('v, 'l, 'd) blip2 \<Rightarrow> 'w world \<Rightarrow>
   ('e exn + 'm) \<times> ('v, 'l, 'd) blip2 \<times> 'w world" where
  "load_from_pretrained L url_or_filename self w =
     (case read_checkpoint L url_or_filename w of
        (Inl e, w1) \<Rightarrow> (Inl e, self, w1)
      | (Inr checkpoint, w1) \<Rightarrow>
          (case (case checkpoint of
                   NotDict \<Rightarrow> Inl (TypeError ''checkpoint'')
                 | Dict d \<Rightarrow>
                     (case d ''model'' of
                        None \<Rightarrow> Inl (KeyError ''model'')
                      | Some state_dict \<Rightarrow> Inr state_dict)) of
             Inl e \<Rightarrow> (Inl e, self, w1)
           | Inr state_dict \<Rightarrow>
               (case call (load_state_dict L (named_parameters self) state_dict False) w1 of
                  (Inl e, w2) \<Rightarrow> (Inl e, self, w2)
                | (Inr (msg, ps), w2) \<Rightarrow>
                    (Inr msg, self\<lparr>named_parameters := ps\<rparr>,
                     logging INFO (''load checkpoint from '' @ url_or_filename) w2))))"

text \<open>
  The call ended in a \<open>RuntimeError\<close>: the one of line 87, or an exception of a library
  call that is an instance of \<open>RuntimeError\<close>.
\<close>

definition raises_RuntimeError ::
  "('w, 'e, 'sd, 'm, 'd) checkpoint_lib \<Rightarrow> 'e exn + 'm \<Rightarrow> bool" where
  "raises_RuntimeError L r =
     (case r of
        Inl (RuntimeError m) \<Rightarrow> True
      | Inl (LibraryError e) \<Rightarrow> is_RuntimeError L e
      | _ \<Rightarrow> False)"

subsection \<open>\<open>lemmatizer\<close>\<close>

text \<open>
  The statement \<open>import spacy\<close>, the call \<open>spacy.load\<close>, and the test that the clause
  \<open>except ImportError\<close> makes on an exception raised inside the \<open>try\<close> block.
\<close>

record ('w, 'e, 'sp, 'l) spacy_lib =
  import_spacy :: "('w, 'e, 'sp) lib"
  spacy_load :: "'sp \<Rightarrow> string \<Rightarrow> ('w, 'e, 'l) lib"
  is_ImportError :: "'e \<Rightarrow> bool"

definition nl :: char where
  "nl = CHR 0x0A"

definition lemmatizer_hint :: string where
  "lemmatizer_hint =
     nl # replicate 20 CHR '' '' @
       ''Please install spacy and en_core_web_sm model to apply lemmatization.'' @
     nl # replicate 20 CHR '' '' @ ''python -m spacy download en_core_web_sm'' @
     nl # replicate 20 CHR '' '' @ ''OR'' @
     nl # replicate 20 CHR '' '' @ ''import spacy.cli'' @
     nl # replicate 20 CHR '' '' @ ''spacy.cli.download('' @ [CHR 0x22] @ ''en_core_web_sm''
       @ [CHR 0x22] @ '')'' @
     nl # replicate 20 CHR '' ''"

text \<open>The body of the \<open>try\<close> block, up to the value to be stored.\<close>

definition load_spacy ::
  "('w, 'e, 'sp, 'l) spacy_lib \<Rightarrow> 'w world \<Rightarrow> ('e exn + 'l) \<times> 'w world" where
  "load_spacy S w =
     (case call (import_spacy S) w of
        (Inl e, w1) \<Rightarrow> (Inl e, w1)
      | (Inr spacy, w1) \<Rightarrow> call (spacy_load S spacy ''en_core_web_sm'') w1)"

definition lemmatizer ::
  "('w, 'e, 'sp, 'l) spacy_lib \<Rightarrow> ('v, 'l, 'd) blip2 \<Rightarrow> 'w world \<Rightarrow>
   ('e exn + 'l) \<times> ('v, 'l, 'd) blip2 \<times> 'w world" where
  "lemmatizer S self w =
     (case lemmatizer_field self of
        Absent \<Rightarrow> (Inl (AttributeError ''_lemmatizer''), self, w)
      | Value (Some l) \<Rightarrow> (Inr l, self, w)
      | Value None \<Rightarrow>
          (case load_spacy S w of
             (Inr l, w1) \<Rightarrow> (Inr l, self\<lparr>lemmatizer_field := Value (Some l)\<rparr>, w1)
           | (Inl (LibraryError e), w1) \<Rightarrow>
               (if is_ImportError S e
                then (Inl (SystemExit 1), self, logging ERROR lemmatizer_hint w1)
                else (Inl (LibraryError e), self, w1))
           | (Inl e, w1) \<Rightarrow> (Inl e, self, w1)))"

text \<open>A run of accesses to the property, one after the other; the values they returned.\<close>

fun accesses ::
  "('w, 'e, 'sp, 'l) spacy_lib \<Rightarrow> nat \<Rightarrow> ('v, 'l, 'd) blip2 \<Rightarrow> 'w world \<Rightarrow>
   ('e exn + 'l list) \<times> ('v, 'l, 'd) blip2 \<times> 'w world" where
  "accesses S 0 self w = (Inr [], self, w)"
| "accesses S (Suc n) self w =
     (case lemmatizer S self w of
        (Inl e, self1, w1) \<Rightarrow> (Inl e, self1, w1)
      | (Inr l, self1, w1) \<Rightarrow>
          (case accesses S n self1 w1 of
             (Inl e, self2, w2) \<Rightarrow> (Inl e, self2, w2)
           | (Inr ls, self2, w2) \<Rightarrow> (Inr (l # ls), self2, w2)))"

subsection \<open>\<open>init_tokenizer\<close> and \<open>init_Qformer\<close>\<close>

text \<open>
  \<open>BertTokenizer.from_pretrained\<close> with its keyword \<open>truncation_side\<close>, and the method
  \<open>add_special_tokens\<close>, which changes the tokenizer and returns how many tokens it added.
\<close>

record ('w, 'e, 't) tokenizer_lib =
  BertTokenizer_from_pretrained :: "string \<Rightarrow> string \<Rightarrow> ('w, 'e, 't) lib"
  add_special_tokens :: "'t \<Rightarrow> (string \<times> string) list \<Rightarrow> ('w, 'e, 't \<times> int) lib"

definition init_tokenizer ::
  "('w, 'e, 't) tokenizer_lib \<Rightarrow> string \<Rightarrow> 'w world \<Rightarrow> ('e exn + 't) \<times> 'w world" where
  "init_tokenizer L truncation_side w =
     (case call (BertTokenizer_from_pretrained L ''bert-base-uncased'' truncation_side) w of
        (Inl e, w1) \<Rightarrow> (Inl e, w1)
      | (Inr tokenizer, w1) \<Rightarrow>
          (case call (add_special_tokens L tokenizer [(''bos_token'', ''[DEC]'')]) w1 of
             (Inl e, w2) \<Rightarrow> (Inl e, w2)
           | (Inr (tokenizer', n), w2) \<Rightarrow> (Inr tokenizer', w2)))"

text \<open>The default of the keyword argument.\<close>

definition init_tokenizer_default ::
  "('w, 'e, 't) tokenizer_lib \<Rightarrow> 'w world \<Rightarrow> ('e exn + 't) \<times> 'w world" where
  "init_tokenizer_default L = init_tokenizer L ''right''"

text \<open>
  The attributes of a \<open>BertConfig\<close> that \<open>init_Qformer\<close> reads or assigns; the record is
  extensible, the other attributes are in its extension.
\<close>

record config =
  hidden_size :: int
  initializer_range :: real
  encoder_width :: int
  add_cross_attention :: bool
  cross_attention_freq :: int
  query_length :: int

text \<open>
  \<open>BertConfig.from_pretrained\<close>, \<open>BertLMHeadModel.from_pretrained\<close> with its keyword
  \<open>config\<close>, \<open>torch.zeros\<close>, the constructor \<open>nn.Parameter\<close>, and \<open>Tensor.normal_\<close> (here
  \<open>Tensor_normal\<close>), which draws new contents for a tensor from the normal distribution of
  the given mean and standard deviation. Line 62 calls it on \<open>query_tokens.data\<close>: the
  attribute \<open>data\<close> of a tensor is a tensor on the same storage that does not require
  grad (\<open>Tensor_data\<close>), so the contents drawn are the contents of \<open>query_tokens\<close>.
\<close>

record ('w, 'e, 'c, 'q, 'd) qformer_lib =
  BertConfig_from_pretrained :: "string \<Rightarrow> ('w, 'e, 'c config_scheme) lib"
  BertLMHeadModel_from_pretrained :: "string \<Rightarrow> 'c config_scheme \<Rightarrow> ('w, 'e, 'q) lib"
  torch_zeros :: "int list \<Rightarrow> ('w, 'e, 'd tensor) lib"
  Parameter :: "'d tensor \<Rightarrow> ('w, 'e, 'd tensor) lib"
  Tensor_normal :: "'d tensor \<Rightarrow> real \<Rightarrow> real \<Rightarrow> ('w, 'e, 'd) lib"

definition Tensor_data :: "'d tensor \<Rightarrow> 'd tensor" where
  "Tensor_data t = t\<lparr>requires_grad := False\<rparr>"

definition init_Qformer ::
  "('w, 'e, 'c, 'q, 'd) qformer_lib \<Rightarrow> int \<Rightarrow> int \<Rightarrow> int \<Rightarrow> 'w world \<Rightarrow>
   ('e exn + 'q \<times> 'd tensor) \<times> 'w world" where
  "init_Qformer L num_query_token vision_width cross_attention_freq' w =
     (case call (BertConfig_from_pretrained L ''bert-base-uncased'') w of
        (Inl e, w1) \<Rightarrow> (Inl e, w1)
      | (Inr c, w1) \<Rightarrow>
          (let encoder_config =
                 c\<lparr>encoder_width := vision_width,
                   add_cross_attention := True,
                   cross_attention_freq := cross_attention_freq',
                   query_length := num_query_token\<rparr>
           in case call (BertLMHeadModel_from_pretrained L ''bert-base-uncased'' encoder_config)
                     w1 of
                (Inl e, w2) \<Rightarrow> (Inl e, w2)
              | (Inr Qformer, w2) \<Rightarrow>
                  (case call (torch_zeros L [1, num_query_token, hidden_size encoder_config])
                          w2 of
                     (Inl e, w3) \<Rightarrow> (Inl e, w3)
                   | (Inr z, w3) \<Rightarrow>
                       (case call (Parameter L z) w3 of
                          (Inl e, w4) \<Rightarrow> (Inl e, w4)
                        | (Inr query_tokens, w4) \<Rightarrow>
                            (case call (Tensor_normal L (Tensor_data query_tokens) 0
                                          (initializer_range encoder_config)) w4 of
                               (Inl e, w5) \<Rightarrow> (Inl e, w5)
                             | (Inr d, w5) \<Rightarrow>
                                 (Inr (Qformer, query_tokens\<lparr>data := d\<rparr>), w5))))))"

definition init_Qformer_default ::
  "('w, 'e, 'c, 'q, 'd) qformer_lib \<Rightarrow> int \<Rightarrow> int \<Rightarrow> 'w world \<Rightarrow>
   ('e exn + 'q \<times> 'd tensor) \<times> 'w world" where
  "init_Qformer_default L num_query_token vision_width =
     init_Qformer L num_query_token vision_width 2"

subsection \<open>\<open>LayerNorm.forward\<close>\<close>

text \<open>
  \<open>Tensor.type(dtype)\<close> gives the tensor cast to \<open>dtype\<close>: the same shape, the contents
  converted by the framework (\<open>convert\<close>, a parameter). \<open>nn.LayerNorm.forward\<close>, which the
  subclass calls through \<open>super()\<close>, is a parameter too.
\<close>

record ('w, 'e, 'n, 'd) layernorm_lib =
  convert :: "dtype \<Rightarrow> dtype \<Rightarrow> 'd \<Rightarrow> 'd"
  nn_LayerNorm_forward :: "'n \<Rightarrow> 'd tensor \<Rightarrow> ('w, 'e, 'd tensor) lib"

definition Tensor_type ::
  "('w, 'e, 'n, 'd) layernorm_lib \<Rightarrow> 'd tensor \<Rightarrow> dtype \<Rightarrow> 'd tensor" where
  "Tensor_type L x t = x\<lparr>dtype := t, data := convert L (dtype x) t (data x)\<rparr>"

definition forward ::
  "('w, 'e, 'n, 'd) layernorm_lib \<Rightarrow> 'n \<Rightarrow> 'd tensor \<Rightarrow> 'w world \<Rightarrow>
   ('e exn + 'd tensor) \<times> 'w world" where
  "forward L self x w =
     (let orig_type = dtype x
      in case call (nn_LayerNorm_forward L self (Tensor_type L x Float32)) w of
           (Inl e, w1) \<Rightarrow> (Inl e, w1)
         | (Inr ret, w1) \<Rightarrow> (Inr (Tensor_type L ret orig_type), w1))"

subsection \<open>\<open>get_optimizer_params\<close>\<close>

text \<open>
  Python's \<open>"%d" % i\<close> for an integer: its decimal digits, with a minus sign when it is
  negative.
\<close>

definition digit :: "nat \<Rightarrow> char" where
  "digit d = ''0123456789'' ! d"

function digits :: "nat \<Rightarrow> string" where
  "digits n = (if n < 10 then [digit n] else digits (n div 10) @ [digit (n mod 10)])"
  by pat_completeness auto
termination
  by (relation "measure id") auto

definition format_d :: "int \<Rightarrow> string" where
  "format_d i = (if i < 0 then CHR ''-'' # digits (nat (- i)) else digits (nat i))"

text \<open>
  \<open>str.replace(old, new)\<close> for a pattern \<open>old\<close> that is not empty, as at its one call:
  the occurrences are taken from the left and do not overlap.
\<close>

function replace :: "string \<Rightarrow> string \<Rightarrow> string \<Rightarrow> string" where
  "replace old new s =
     (if s = [] then []
      else if old \<noteq> [] \<and> prefix old s then new @ replace old new (drop (length old) s)
      else hd s # replace old new (tl s))"
  by pat_completeness auto
termination
  by (relation "measure (\<lambda>(old, new, s). length s)") auto

text \<open>
  Indexing a list as Python does: a negative index counts from the end, an index out of
  range raises \<open>IndexError\<close>.
\<close>

definition getitem :: "'a list \<Rightarrow> int \<Rightarrow> 'e exn + 'a" where
  "getitem xs i =
     (if 0 \<le> i \<and> i < int (length xs) then Inr (xs ! nat i)
      else if i < 0 \<and> - int (length xs) \<le> i then Inr (xs ! nat (int (length xs) + i))
      else Inl IndexError)"

text \<open>One entry of the list the method returns.\<close>

record 'p group =
  weight_decay :: real
  params :: "'p list"
  lr_scale :: real

text \<open>
  A dictionary of groups keeps the order in which its keys were inserted:
  an association list with distinct keys, a new key going to the end.
\<close>

type_synonym 'p groups = "(string \<times> 'p group) list"

definition append_param :: "string \<Rightarrow> 'p \<Rightarrow> 'p groups \<Rightarrow> 'p groups" where
  "append_param k p gs =
     map (\<lambda>(k', g). if k' = k then (k', g\<lparr>params := params g @ [p]\<rparr>) else (k', g)) gs"

text \<open>
  \<open>get_num_layer\<close> is the method of the visual encoder (\<open>eva_vit\<close>), called with the
  default \<open>var_name=""\<close> and with parameter names. \<open>super_get_optimizer_params\<close> is what
  \<open>super().get_optimizer_params\<close> resolves to in the classes after \<open>Blip2Base\<close>, if any
  of them defines the method.
\<close>

record ('e, 'v, 'd) optim_lib =
  get_num_layer :: "'v \<Rightarrow> string \<Rightarrow> 'e + int"
  super_get_optimizer_params :: "(real \<Rightarrow> real \<Rightarrow> 'e exn + 'd tensor group list) option"

text \<open>
  The body of the loop for one \<open>(name, param)\<close>, on the pair of dictionaries
  \<open>(parameter_group_names, parameter_group_vars)\<close>.
\<close>

definition group_param ::
  "('e, 'v, 'd) optim_lib \<Rightarrow> 'v \<Rightarrow> real \<Rightarrow> real list \<Rightarrow> string \<Rightarrow> 'd tensor \<Rightarrow>
   string groups \<times> 'd tensor groups \<Rightarrow> 'e exn + string groups \<times> 'd tensor groups" where
  "group_param L v weight_decay' lr_scales name param st =
     (if \<not> requires_grad param then Inr st
      else
        let (group_name, this_weight_decay) =
              (if length (shape param) = 1 \<or> suffix ''.bias'' name
               then (''no_decay'', 0) else (''decay'', weight_decay'))
        in case (if sublist ''visual_encoder'' name
                 then (case get_num_layer L v (replace ''visual_encoder.'' [] name) of
                         Inl e \<Rightarrow> Inl (LibraryError e)
                       | Inr layer_id \<Rightarrow>
                           Inr (''vit_layer_'' @ format_d layer_id @ ''_'' @ group_name,
                                Some layer_id))
                 else Inr (group_name, None)) of
             Inl e \<Rightarrow> Inl e
           | Inr (group_name, layer_id) \<Rightarrow>
               (case (if group_name \<notin> fst ` set (fst st)
                      then (case (case layer_id of
                                    Some i \<Rightarrow> getitem lr_scales i
                                  | None \<Rightarrow> Inr 1) of
                              Inl e \<Rightarrow> Inl e
                            | Inr scale \<Rightarrow>
                                Inr (fst st @ [(group_name,
                                       \<lparr>weight_decay = this_weight_decay, params = [],
                                        lr_scale = scale\<rparr>)],
                                     snd st @ [(group_name,
                                       \<lparr>weight_decay = this_weight_decay, params = [],
                                        lr_scale = scale\<rparr>)]))
                      else Inr st) of
                  Inl e \<Rightarrow> Inl e
                | Inr (names, vars) \<Rightarrow>
                    Inr (append_param group_name name names,
                         append_param group_name param vars)))"

fun group_params ::
  "('e, 'v, 'd) optim_lib \<Rightarrow> 'v \<Rightarrow> real \<Rightarrow> real list \<Rightarrow> (string \<times> 'd tensor) list \<Rightarrow>
   string groups \<times> 'd tensor groups \<Rightarrow> 'e exn + string groups \<times> 'd tensor groups" where
  "group_params L v weight_decay' lr_scales [] st = Inr st"
| "group_params L v weight_decay' lr_scales ((name, param) # rest) st =
     (case group_param L v weight_decay' lr_scales name param st of
        Inl e \<Rightarrow> Inl e
      | Inr st' \<Rightarrow> group_params L v weight_decay' lr_scales rest st')"

text \<open>Line 101: the scale of every layer id from \<open>0\<close> to \<open>vit_num_layers + 1\<close>.\<close>

definition layer_scales :: "real \<Rightarrow> int \<Rightarrow> real list" where
  "layer_scales lr_scale' vit_num_layers =
     map (\<lambda>i. lr_scale' ^ nat (vit_num_layers + 1 - i)) [0..vit_num_layers + 1]"

definition get_optimizer_params ::
  "('e, 'v, 'd) optim_lib \<Rightarrow> real \<Rightarrow> real \<Rightarrow> ('v, 'l, 'd) blip2 \<Rightarrow>
   'e exn + 'd tensor group list" where
  "get_optimizer_params L weight_decay' lr_scale' self =
     (case vit_name self of
        Absent \<Rightarrow> Inl (AttributeError ''vit_name'')
      | Value name \<Rightarrow>
          if name = ''eva_clip_g'' then
            (case visual_encoder self of
               Absent \<Rightarrow> Inl (AttributeError ''visual_encoder'')
             | Value v \<Rightarrow>
                 (case get_num_layer L v [] of
                    Inl e \<Rightarrow> Inl (LibraryError e)
                  | Inr vit_num_layers \<Rightarrow>
                      (case group_params L v weight_decay'
                              (layer_scales lr_scale' vit_num_layers)
                              (named_parameters self) ([], []) of
                         Inl e \<Rightarrow> Inl e
                       | Inr (parameter_group_names, parameter_group_vars) \<Rightarrow>
                           Inr (map snd parameter_group_vars))))
          else
            (case super_get_optimizer_params L of
               None \<Rightarrow> Inl (AttributeError ''get_optimizer_params'')
             | Some f \<Rightarrow> f weight_decay' lr_scale'))"

subsection \<open>Notions for the proof about the groups\<close>

declare digits.simps [simp del] replace.simps [simp del]

text \<open>
  The key of a group in the two dictionaries, as lines 110, 113 and 117 make it: from
  the layer id (none for a parameter outside the visual encoder) and the decay class.
\<close>

definition group_key :: "int option \<Rightarrow> bool \<Rightarrow> string" where
  "group_key layer nd =
     (case layer of
        None \<Rightarrow> (if nd then ''no_decay'' else ''decay'')
      | Some i \<Rightarrow> ''vit_layer_'' @ format_d i @ ''_'' @ (if nd then ''no_decay'' else ''decay''))"

text \<open>
  The test on line 109.
\<close>

definition no_decay :: "string \<Rightarrow> 'd tensor \<Rightarrow> bool" where
  "no_decay name param = (length (shape param) = 1 \<or> suffix ''.bias'' name)"

text \<open>
  The layer id that line 116 gives a parameter name, when \<open>get_num_layer\<close> returns.
\<close>

definition layer_of :: "('e, 'v, 'd) optim_lib \<Rightarrow> 'v \<Rightarrow> string \<Rightarrow> int option" where
  "layer_of L v name =
     (if sublist ''visual_encoder'' name
      then (case get_num_layer L v (replace ''visual_encoder.'' [] name) of
              Inl e \<Rightarrow> None | Inr i \<Rightarrow> Some i)
      else None)"

text \<open>
  The encoder returns a layer id for the name, and the id is an index of \<open>lr_scales\<close>
  counted from the front.
\<close>

definition in_range :: "('e, 'v, 'd) optim_lib \<Rightarrow> 'v \<Rightarrow> int \<Rightarrow> string \<Rightarrow> bool" where
  "in_range L v N name =
     (if sublist ''visual_encoder'' name
      then (case get_num_layer L v (replace ''visual_encoder.'' [] name) of
              Inl e \<Rightarrow> False | Inr i \<Rightarrow> 0 \<le> i \<and> i \<le> N + 1)
      else True)"

text \<open>
  The entry of \<open>lr_scales\<close> for a layer id; \<open>1\<close> without one.
\<close>

definition scale_of :: "real \<Rightarrow> int \<Rightarrow> int option \<Rightarrow> real" where
  "scale_of lr N layer = (case layer of None \<Rightarrow> 1 | Some i \<Rightarrow> lr ^ nat (N + 1 - i))"

text \<open>
  Lines 121 to 129 on one dictionary: the group is created when its key is new, then the
  item is appended to it.
\<close>

definition insert_group :: "string \<Rightarrow> 'p \<Rightarrow> real \<Rightarrow> real \<Rightarrow> 'p groups \<Rightarrow> 'p groups" where
  "insert_group k p w0 sc gs =
     append_param k p
       (if k \<in> fst ` set gs then gs
        else gs @ [(k, \<lparr>weight_decay = w0, params = [], lr_scale = sc\<rparr>)])"

text \<open>
  The loop invariants, for the parameters \<open>seen\<close> so far: every group has the weight
  decay and the scale of its key and holds only trainable parameters of that key,
\<close>

definition groups_inv ::
  "('e, 'v, 'd) optim_lib \<Rightarrow> 'v \<Rightarrow> real \<Rightarrow> real \<Rightarrow> int \<Rightarrow> (string \<times> 'd tensor) list \<Rightarrow>
   'd tensor groups \<Rightarrow> bool" where
  "groups_inv L v wd lr N seen vars \<longleftrightarrow>
     (\<forall>k g. (k, g) \<in> set vars \<longrightarrow> (\<exists>layer nd.
        k = group_key layer nd \<and> weight_decay g = (if nd then 0 else wd) \<and>
        lr_scale g = scale_of lr N layer \<and>
        (\<forall>p. p \<in> set (params g) \<longrightarrow> (\<exists>name. (name, p) \<in> set seen \<and> requires_grad p \<and>
           layer_of L v name = layer \<and> no_decay name p = nd))))"

text \<open>
  and every trainable parameter seen is in the group of its key.
\<close>

definition members_inv ::
  "('e, 'v, 'd) optim_lib \<Rightarrow> 'v \<Rightarrow> (string \<times> 'd tensor) list \<Rightarrow> 'd tensor groups \<Rightarrow> bool" where
  "members_inv L v seen vars \<longleftrightarrow>
     (\<forall>name p. (name, p) \<in> set seen \<longrightarrow> requires_grad p \<longrightarrow>
        (\<exists>g. (group_key (layer_of L v name) (no_decay name p), g) \<in> set vars \<and>
             p \<in> set (params g)))"

subsection \<open>A concrete library\<close>

text \<open>
  An instance of every library parameter, on which the methods can be run: the outside
  world is the list of the library calls made so far, a library exception is its class
  name.
\<close>

definition example_world :: "string list world" where
  "example_world = \<lparr>log_records = [], ext = []\<rparr>"

definition example_tensor :: "nat list \<Rightarrow> bool \<Rightarrow> nat \<Rightarrow> nat tensor" where
  "example_tensor sh g d = \<lparr>shape = sh, dtype = Float32, requires_grad = g, data = d\<rparr>"

definition example_self :: "(nat, string, nat) blip2" where
  "example_self =
     \<lparr>vit_name = Value ''eva_clip_g'', visual_encoder = Value 2,
      lemmatizer_field = Value None,
      named_parameters =
        [(''query_tokens'', example_tensor [1, 32, 768] True 0),
         (''visual_encoder.patch_embed.proj.weight'', example_tensor [4, 3, 14, 14] True 1),
         (''visual_encoder.patch_embed.proj.bias'', example_tensor [4] True 2),
         (''visual_encoder.blocks.0.attn.weight'', example_tensor [4, 4] True 3),
         (''visual_encoder.blocks.1.attn.weight'', example_tensor [4, 4] True 4),
         (''visual_encoder.blocks.1.attn.bias'', example_tensor [4] False 5),
         (''ln_vision.weight'', example_tensor [4] True 6)]\<rparr>"

definition example_vision_lib :: "(string list, string, nat, int) vision_lib" where
  "example_vision_lib =
     \<lparr>create_eva_vit_g = (\<lambda>img_size drop_path_rate use_grad_checkpoint precision root x.
         (Inr 40, x @ [''create_eva_vit_g''])),
      create_clip_vit_L = (\<lambda>img_size use_grad_checkpoint precision root x.
         (Inr 24, x @ [''create_clip_vit_L''])),
      num_features = (\<lambda>v. if v = 40 then 1408 else 1024),
      LayerNorm = (\<lambda>n x. (Inr n, x @ [''LayerNorm'']))\<rparr>"

definition example_checkpoint_lib ::
  "(string list, string, nat, string, nat) checkpoint_lib" where
  "example_checkpoint_lib =
     \<lparr>is_url = prefix ''https://'',
      isfile = (\<lambda>p x. p = ''/ckpt/model.pth''),
      download_cached_file = (\<lambda>url check_hash progress x.
         (Inr ''/cache/model.pth'', x @ [''download '' @ url])),
      torch_load = (\<lambda>f map_location x. (Inr (Dict [''model'' \<mapsto> 9]), x @ [''load '' @ f])),
      load_state_dict = (\<lambda>ps sd strict x.
         (Inr (''ok'', map (\<lambda>(n, t). (n, t\<lparr>data := sd\<rparr>)) ps), x @ [''load_state_dict''])),
      is_RuntimeError = (\<lambda>e. e = ''RuntimeError'')\<rparr>"

text \<open>
  The same with a checkpoint whose tensors do not have the shapes of the module's:
  \<open>load_state_dict\<close> raises a \<open>RuntimeError\<close> (size mismatch), also with \<open>strict=False\<close>.
\<close>

definition example_mismatch_lib ::
  "(string list, string, nat, string, nat) checkpoint_lib" where
  "example_mismatch_lib =
     example_checkpoint_lib\<lparr>load_state_dict := (\<lambda>ps sd strict x.
        (Inl ''RuntimeError'', x @ [''load_state_dict'']))\<rparr>"

definition example_spacy_lib :: "(string list, string, unit, string) spacy_lib" where
  "example_spacy_lib =
     \<lparr>import_spacy = (\<lambda>x. (Inr (), x @ [''import spacy''])),
      spacy_load = (\<lambda>spacy name x. (Inr (''nlp '' @ name), x @ [''spacy.load''])),
      is_ImportError = (\<lambda>e. e = ''ImportError'' \<or> e = ''ModuleNotFoundError'')\<rparr>"

text \<open>
  The same with no \<open>spacy\<close> package (\<open>import spacy\<close> raises \<open>ModuleNotFoundError\<close>, a
  subclass of \<open>ImportError\<close>), and with the package but without the model
  \<open>en_core_web_sm\<close>: \<open>spacy.load\<close> raises \<open>OSError\<close> for a model it cannot find.
\<close>

definition example_no_spacy :: "(string list, string, unit, string) spacy_lib" where
  "example_no_spacy =
     example_spacy_lib\<lparr>import_spacy := (\<lambda>x. (Inl ''ModuleNotFoundError'', x @ [''import spacy'']))\<rparr>"

definition example_no_model :: "(string list, string, unit, string) spacy_lib" where
  "example_no_model =
     example_spacy_lib\<lparr>spacy_load := (\<lambda>spacy name x. (Inl ''OSError'', x @ [''spacy.load'']))\<rparr>"

definition example_tokenizer_lib ::
  "(string list, string, string \<times> (string \<times> string) list) tokenizer_lib" where
  "example_tokenizer_lib =
     \<lparr>BertTokenizer_from_pretrained = (\<lambda>name side x. (Inr (side, []), x @ [name])),
      add_special_tokens = (\<lambda>t kv x.
         (Inr ((fst t, snd t @ kv), int (length kv)), x @ [''add_special_tokens'']))\<rparr>"

definition example_config :: config where
  "example_config =
     \<lparr>hidden_size = 768, initializer_range = 2 / 100, encoder_width = 0,
      add_cross_attention = False, cross_attention_freq = 0, query_length = 0\<rparr>"

definition example_qformer_lib ::
  "(string list, string, unit, config, string) qformer_lib" where
  "example_qformer_lib =
     \<lparr>BertConfig_from_pretrained = (\<lambda>name x. (Inr example_config, x @ [''config''])),
      BertLMHeadModel_from_pretrained = (\<lambda>name c x. (Inr c, x @ [''model''])),
      torch_zeros = (\<lambda>size x.
         (Inr \<lparr>shape = map nat size, dtype = Float32, requires_grad = False, data = ''zeros''\<rparr>,
          x @ [''zeros''])),
      Parameter = (\<lambda>t x. (Inr (t\<lparr>requires_grad := True\<rparr>), x @ [''Parameter''])),
      Tensor_normal = (\<lambda>t mean std x.
         if requires_grad t then (Inl ''RuntimeError'', x @ [''normal_''])
         else (Inr ''normal'', x @ [''normal_'']))\<rparr>"

definition example_layernorm_lib :: "(string list, string, int, nat) layernorm_lib" where
  "example_layernorm_lib =
     \<lparr>convert = (\<lambda>from to d. d),
      nn_LayerNorm_forward = (\<lambda>n t x.
         (Inr (t\<lparr>data := data t + 1\<rparr>), x @ [''forward''])) \<rparr>"

definition example_optim_lib :: "(string, nat, nat) optim_lib" where
  "example_optim_lib =
     \<lparr>get_num_layer = (\<lambda>v name.
         if prefix ''patch_embed'' name then Inr 0
         else if prefix ''blocks.0'' name then Inr 1
         else if prefix ''blocks.1'' name then Inr 2
         else Inr (int v)),
      super_get_optimizer_params = None\<rparr>"

section \<open>Properties\<close>

subsection \<open>Library calls\<close>

lemma call_Inr: "f (ext w) = (Inr a, x) \<Longrightarrow> call f w = (Inr a, w\<lparr>ext := x\<rparr>)"
  by (simp add: call_def)

lemma call_Inl: "f (ext w) = (Inl e, x) \<Longrightarrow> call f w = (Inl (LibraryError e), w\<lparr>ext := x\<rparr>)"
  by (simp add: call_def)

lemma read_checkpoint_RuntimeError:
  "(\<exists>m. fst (read_checkpoint L u w) = Inl (RuntimeError m)) \<longleftrightarrow>
     \<not> is_url L u \<and> \<not> isfile L u (ext w)"
  by (auto simp: read_checkpoint_def call_def split: prod.splits sum.splits)

subsection \<open>Loading a checkpoint\<close>

lemma load_from_pretrained_neither:
  "\<not> is_url L u \<Longrightarrow> \<not> isfile L u (ext w) \<Longrightarrow>
   load_from_pretrained L u self w =
     (Inl (RuntimeError ''checkpoint url or path is invalid''), self, w)"
  by (simp add: load_from_pretrained_def read_checkpoint_def)

lemma load_from_pretrained_own_RuntimeError:
  "(\<exists>m. fst (load_from_pretrained L u self w) = Inl (RuntimeError m)) \<longleftrightarrow>
     \<not> is_url L u \<and> \<not> isfile L u (ext w)"
  using read_checkpoint_RuntimeError [of L u w]
  by (auto simp: load_from_pretrained_def call_def
        split: prod.splits sum.splits option.splits loaded.splits)

lemma load_from_pretrained_library_RuntimeError:
  assumes "is_url L u \<or> isfile L u (ext w)"
    and "raises_RuntimeError L (fst (load_from_pretrained L u self w))"
  shows "\<exists>e. fst (load_from_pretrained L u self w) = Inl (LibraryError e) \<and> is_RuntimeError L e"
proof (cases "fst (load_from_pretrained L u self w)")
  case (Inr msg)
  with assms(2) show ?thesis by (simp add: raises_RuntimeError_def)
next
  case (Inl x)
  show ?thesis
  proof (cases x)
    case (RuntimeError m)
    with Inl assms(1) load_from_pretrained_own_RuntimeError [of L u self w]
    show ?thesis by blast
  next
    case (LibraryError e)
    with Inl assms(2) show ?thesis by (simp add: raises_RuntimeError_def)
  qed (use Inl assms(2) in \<open>simp_all add: raises_RuntimeError_def\<close>)
qed

text \<open>
  C1, as the claim states it, fails: with a checkpoint file that exists and loads but
  whose tensors do not fit the module, \<open>load_state_dict\<close> raises a \<open>RuntimeError\<close>, the
  method lets it pass, and so it raises a \<open>RuntimeError\<close> for an argument that is a path
  to an existing file.
\<close>

theorem load_from_pretrained_RuntimeError_counterexample:
  "\<not> (raises_RuntimeError example_mismatch_lib
          (fst (load_from_pretrained example_mismatch_lib ''/ckpt/model.pth'' example_self
                  example_world))
        \<longleftrightarrow> \<not> is_url example_mismatch_lib ''/ckpt/model.pth'' \<and>
            \<not> isfile example_mismatch_lib ''/ckpt/model.pth'' (ext example_world))"
  by (simp add: load_from_pretrained_def read_checkpoint_def call_def raises_RuntimeError_def
        example_mismatch_lib_def example_checkpoint_lib_def example_world_def)

text \<open>
  C1, amended. \<open>load_from_pretrained\<close> raises a \<open>RuntimeError\<close> whenever the argument is
  neither a URL nor a path to an existing file: the one of line 87, with nothing else
  done, and it raises that one in no other case. For a URL or an existing file it ends
  in a \<open>RuntimeError\<close> only when a library call (\<open>download_cached_file\<close>, \<open>torch.load\<close>,
  \<open>load_state_dict\<close>) raised one, which it lets pass. For a URL the checkpoint is what
  \<open>torch.load\<close> reads from the cached file that \<open>download_cached_file\<close> returned, in the
  world the download left; otherwise, for an existing file, it is what \<open>torch.load\<close>
  reads from that file. The method returns a value exactly when the checkpoint was read,
  is a dictionary with the key \<open>model\<close> and \<open>load_state_dict\<close> returned, and the value is
  the report of \<open>load_state_dict\<close> for \<open>checkpoint["model"]\<close> (with \<open>strict=False\<close>), the
  module holding the parameters as that call left them.
\<close>

theorem load_from_pretrained_behaviour:
  "(\<not> is_url L u \<and> \<not> isfile L u (ext w) \<longrightarrow>
        load_from_pretrained L u self w =
          (Inl (RuntimeError ''checkpoint url or path is invalid''), self, w) \<and>
        raises_RuntimeError L (fst (load_from_pretrained L u self w)))
   \<and> ((\<exists>m. fst (load_from_pretrained L u self w) = Inl (RuntimeError m))
      \<longleftrightarrow> \<not> is_url L u \<and> \<not> isfile L u (ext w))
   \<and> ((is_url L u \<or> isfile L u (ext w)) \<and>
        raises_RuntimeError L (fst (load_from_pretrained L u self w)) \<longrightarrow>
        (\<exists>e. fst (load_from_pretrained L u self w) = Inl (LibraryError e) \<and>
             is_RuntimeError L e))
   \<and> (\<forall>cached_file x1 checkpoint x2.
        is_url L u \<and>
        download_cached_file L u False True (ext w) = (Inr cached_file, x1) \<and>
        torch_load L cached_file ''cpu'' x1 = (Inr checkpoint, x2) \<longrightarrow>
        read_checkpoint L u w = (Inr checkpoint, w\<lparr>ext := x2\<rparr>))
   \<and> (\<forall>checkpoint x.
        \<not> is_url L u \<and> isfile L u (ext w) \<and>
        torch_load L u ''cpu'' (ext w) = (Inr checkpoint, x) \<longrightarrow>
        read_checkpoint L u w = (Inr checkpoint, w\<lparr>ext := x\<rparr>))
   \<and> (\<forall>d w1 state_dict msg ps x.
        read_checkpoint L u w = (Inr (Dict d), w1) \<and>
        d ''model'' = Some state_dict \<and>
        load_state_dict L (named_parameters self) state_dict False (ext w1) =
          (Inr (msg, ps), x) \<longrightarrow>
        load_from_pretrained L u self w =
          (Inr msg, self\<lparr>named_parameters := ps\<rparr>,
           logging INFO (''load checkpoint from '' @ u) (w1\<lparr>ext := x\<rparr>)))
   \<and> (\<forall>msg. fst (load_from_pretrained L u self w) = Inr msg \<longrightarrow>
        (\<exists>d w1 state_dict ps x.
           read_checkpoint L u w = (Inr (Dict d), w1) \<and>
           d ''model'' = Some state_dict \<and>
           load_state_dict L (named_parameters self) state_dict False (ext w1) =
             (Inr (msg, ps), x)))"
proof (intro conjI)
  show "\<not> is_url L u \<and> \<not> isfile L u (ext w) \<longrightarrow>
        load_from_pretrained L u self w =
          (Inl (RuntimeError ''checkpoint url or path is invalid''), self, w) \<and>
        raises_RuntimeError L (fst (load_from_pretrained L u self w))"
    by (simp add: load_from_pretrained_neither raises_RuntimeError_def)
next
  show "(\<exists>m. fst (load_from_pretrained L u self w) = Inl (RuntimeError m))
      \<longleftrightarrow> \<not> is_url L u \<and> \<not> isfile L u (ext w)"
    by (rule load_from_pretrained_own_RuntimeError)
next
  show "(is_url L u \<or> isfile L u (ext w)) \<and>
        raises_RuntimeError L (fst (load_from_pretrained L u self w)) \<longrightarrow>
        (\<exists>e. fst (load_from_pretrained L u self w) = Inl (LibraryError e) \<and>
             is_RuntimeError L e)"
    using load_from_pretrained_library_RuntimeError [of L u w self] by blast
next
  show "\<forall>cached_file x1 checkpoint x2.
        is_url L u \<and>
        download_cached_file L u False True (ext w) = (Inr cached_file, x1) \<and>
        torch_load L cached_file ''cpu'' x1 = (Inr checkpoint, x2) \<longrightarrow>
        read_checkpoint L u w = (Inr checkpoint, w\<lparr>ext := x2\<rparr>)"
    by (simp add: read_checkpoint_def call_def)
next
  show "\<forall>checkpoint x.
        \<not> is_url L u \<and> isfile L u (ext w) \<and>
        torch_load L u ''cpu'' (ext w) = (Inr checkpoint, x) \<longrightarrow>
        read_checkpoint L u w = (Inr checkpoint, w\<lparr>ext := x\<rparr>)"
    by (simp add: read_checkpoint_def call_def)
next
  show "\<forall>d w1 state_dict msg ps x.
        read_checkpoint L u w = (Inr (Dict d), w1) \<and>
        d ''model'' = Some state_dict \<and>
        load_state_dict L (named_parameters self) state_dict False (ext w1) =
          (Inr (msg, ps), x) \<longrightarrow>
        load_from_pretrained L u self w =
          (Inr msg, self\<lparr>named_parameters := ps\<rparr>,
           logging INFO (''load checkpoint from '' @ u) (w1\<lparr>ext := x\<rparr>))"
    by (simp add: load_from_pretrained_def call_def)
next
  show "\<forall>msg. fst (load_from_pretrained L u self w) = Inr msg \<longrightarrow>
        (\<exists>d w1 state_dict ps x.
           read_checkpoint L u w = (Inr (Dict d), w1) \<and>
           d ''model'' = Some state_dict \<and>
           load_state_dict L (named_parameters self) state_dict False (ext w1) =
             (Inr (msg, ps), x))"
    by (auto simp: load_from_pretrained_def call_def
          split: prod.splits sum.splits option.splits loaded.splits)
qed

theorem load_from_pretrained_behaviour_witness:
  "load_from_pretrained example_checkpoint_lib ''model.pth'' example_self example_world =
     (Inl (RuntimeError ''checkpoint url or path is invalid''), example_self, example_world)
   \<and> read_checkpoint example_checkpoint_lib ''https://host/model.pth'' example_world =
       (Inr (Dict [''model'' \<mapsto> 9]),
        example_world\<lparr>ext := [''download https://host/model.pth'', ''load /cache/model.pth'']\<rparr>)
   \<and> read_checkpoint example_checkpoint_lib ''/ckpt/model.pth'' example_world =
       (Inr (Dict [''model'' \<mapsto> 9]), example_world\<lparr>ext := [''load /ckpt/model.pth'']\<rparr>)
   \<and> fst (load_from_pretrained example_checkpoint_lib ''/ckpt/model.pth'' example_self
            example_world) = Inr ''ok''
   \<and> fst (load_from_pretrained example_mismatch_lib ''/ckpt/model.pth'' example_self
            example_world) = Inl (LibraryError ''RuntimeError'')"
proof -
  have neither: "\<not> is_url example_checkpoint_lib ''model.pth'' \<and>
      \<not> isfile example_checkpoint_lib ''model.pth'' (ext example_world)"
    by (simp add: example_checkpoint_lib_def)
  have by_url: "is_url example_checkpoint_lib ''https://host/model.pth'' \<and>
      download_cached_file example_checkpoint_lib ''https://host/model.pth'' False True
        (ext example_world) = (Inr ''/cache/model.pth'', [''download https://host/model.pth'']) \<and>
      torch_load example_checkpoint_lib ''/cache/model.pth'' ''cpu''
        [''download https://host/model.pth''] =
        (Inr (Dict [''model'' \<mapsto> 9]),
         [''download https://host/model.pth'', ''load /cache/model.pth''])"
    by (simp add: example_checkpoint_lib_def example_world_def)
  have by_file: "\<not> is_url example_checkpoint_lib ''/ckpt/model.pth'' \<and>
      isfile example_checkpoint_lib ''/ckpt/model.pth'' (ext example_world) \<and>
      torch_load example_checkpoint_lib ''/ckpt/model.pth'' ''cpu'' (ext example_world) =
        (Inr (Dict [''model'' \<mapsto> 9]), [''load /ckpt/model.pth''])"
    by (simp add: example_checkpoint_lib_def example_world_def)
  have 1: "load_from_pretrained example_checkpoint_lib ''model.pth'' example_self example_world =
     (Inl (RuntimeError ''checkpoint url or path is invalid''), example_self, example_world)"
    by (rule conjunct1 [OF mp [OF conjunct1 [OF load_from_pretrained_behaviour] neither]])
  have 2: "read_checkpoint example_checkpoint_lib ''https://host/model.pth'' example_world =
       (Inr (Dict [''model'' \<mapsto> 9]),
        example_world\<lparr>ext := [''download https://host/model.pth'', ''load /cache/model.pth'']\<rparr>)"
    by (rule mp [OF spec [OF spec [OF spec [OF spec [OF conjunct1 [OF conjunct2 [OF conjunct2
          [OF conjunct2 [OF load_from_pretrained_behaviour]]]]]]]] by_url])
  have 3: "read_checkpoint example_checkpoint_lib ''/ckpt/model.pth'' example_world =
       (Inr (Dict [''model'' \<mapsto> 9]), example_world\<lparr>ext := [''load /ckpt/model.pth'']\<rparr>)"
    by (rule mp [OF spec [OF spec [OF conjunct1 [OF conjunct2 [OF conjunct2 [OF conjunct2
          [OF conjunct2 [OF load_from_pretrained_behaviour]]]]]]] by_file])
  have ld: "read_checkpoint example_checkpoint_lib ''/ckpt/model.pth'' example_world =
       (Inr (Dict [''model'' \<mapsto> 9]), example_world\<lparr>ext := [''load /ckpt/model.pth'']\<rparr>) \<and>
      [''model'' \<mapsto> 9::nat] ''model'' = Some 9 \<and>
      load_state_dict example_checkpoint_lib (named_parameters example_self) 9 False
        (ext (example_world\<lparr>ext := [''load /ckpt/model.pth'']\<rparr>)) =
      (Inr (''ok'', map (\<lambda>(n, t). (n, t\<lparr>data := 9\<rparr>)) (named_parameters example_self)),
       [''load /ckpt/model.pth'', ''load_state_dict''])"
    using 3 by (simp add: example_checkpoint_lib_def)
  have "load_from_pretrained example_checkpoint_lib ''/ckpt/model.pth'' example_self
            example_world =
       (Inr ''ok'',
        example_self\<lparr>named_parameters :=
          map (\<lambda>(n, t). (n, t\<lparr>data := 9\<rparr>)) (named_parameters example_self)\<rparr>,
        logging INFO (''load checkpoint from '' @ ''/ckpt/model.pth'')
          (example_world\<lparr>ext := [''load /ckpt/model.pth'']\<rparr>
             \<lparr>ext := [''load /ckpt/model.pth'', ''load_state_dict'']\<rparr>))"
    by (rule mp [OF spec [OF spec [OF spec [OF spec [OF spec [OF spec [OF conjunct1
          [OF conjunct2 [OF conjunct2 [OF conjunct2 [OF conjunct2 [OF conjunct2
          [OF load_from_pretrained_behaviour]]]]]]]]]]]] ld])
  then have 4: "fst (load_from_pretrained example_checkpoint_lib ''/ckpt/model.pth''
      example_self example_world) = Inr ''ok''"
    by simp
  have lib: "(is_url example_mismatch_lib ''/ckpt/model.pth'' \<or>
       isfile example_mismatch_lib ''/ckpt/model.pth'' (ext example_world)) \<and>
      raises_RuntimeError example_mismatch_lib
        (fst (load_from_pretrained example_mismatch_lib ''/ckpt/model.pth'' example_self
                example_world))"
    by (simp add: load_from_pretrained_def read_checkpoint_def call_def raises_RuntimeError_def
          example_mismatch_lib_def example_checkpoint_lib_def example_world_def)
  from mp [OF conjunct1 [OF conjunct2 [OF conjunct2 [OF load_from_pretrained_behaviour]]] lib]
  obtain e where e: "fst (load_from_pretrained example_mismatch_lib ''/ckpt/model.pth''
      example_self example_world) = Inl (LibraryError e)"
    and "is_RuntimeError example_mismatch_lib e"
    by blast
  from this(2) have "e = ''RuntimeError''"
    by (simp add: example_mismatch_lib_def example_checkpoint_lib_def)
  with e have 5: "fst (load_from_pretrained example_mismatch_lib ''/ckpt/model.pth''
      example_self example_world) = Inl (LibraryError ''RuntimeError'')"
    by simp
  from 1 2 3 4 5 show ?thesis
    by (intro conjI)
qed

subsection \<open>The vision encoder\<close>

text \<open>
  C6. \<open>init_vision_encoder\<close> raises \<open>AssertionError\<close> for every \<open>model_name\<close> outside
  \<open>eva_clip_g\<close>, \<open>eva2_clip_L\<close>, \<open>clip_L\<close>, with nothing else done. For \<open>eva_clip_g\<close>
  (for \<open>clip_L\<close>) it calls \<open>create_eva_vit_g\<close> (\<open>create_clip_vit_L\<close>) on its arguments and,
  when that and the \<open>LayerNorm\<close> constructor return, stores \<open>model_name\<close> in \<open>vit_name\<close> and
  returns the encoder with the \<open>LayerNorm\<close> made for the encoder's \<open>num_features\<close>.
\<close>

theorem init_vision_encoder_behaviour:
  "(model_name \<notin> {''eva_clip_g'', ''eva2_clip_L'', ''clip_L''} \<longrightarrow>
      (\<exists>m. init_vision_encoder L model_name img_size drop_path_rate use_grad_checkpoint
              precision model_root_dir self w = (Inl (AssertionError m), self, w)))
   \<and> (\<forall>v x1 ln x2.
        create_eva_vit_g L img_size drop_path_rate use_grad_checkpoint precision
          model_root_dir (ext w) = (Inr v, x1) \<and>
        LayerNorm L (num_features L v) x1 = (Inr ln, x2) \<longrightarrow>
        init_vision_encoder L ''eva_clip_g'' img_size drop_path_rate use_grad_checkpoint
          precision model_root_dir self w =
          (Inr (v, ln), self\<lparr>vit_name := Value ''eva_clip_g''\<rparr>, w\<lparr>ext := x2\<rparr>))
   \<and> (\<forall>v x1 ln x2.
        create_clip_vit_L L img_size use_grad_checkpoint precision model_root_dir (ext w) =
          (Inr v, x1) \<and>
        LayerNorm L (num_features L v) x1 = (Inr ln, x2) \<longrightarrow>
        init_vision_encoder L ''clip_L'' img_size drop_path_rate use_grad_checkpoint
          precision model_root_dir self w =
          (Inr (v, ln), self\<lparr>vit_name := Value ''clip_L''\<rparr>, w\<lparr>ext := x2\<rparr>))"
  by (simp add: init_vision_encoder_def call_def)

theorem init_vision_encoder_behaviour_witness:
  "(\<exists>m. init_vision_encoder example_vision_lib ''vit_b'' 224 0 False ''fp16'' ''models''
           example_self example_world = (Inl (AssertionError m), example_self, example_world))
   \<and> init_vision_encoder example_vision_lib ''eva_clip_g'' 224 0 False ''fp16'' ''models''
        example_self example_world =
        (Inr (40, 1408), example_self\<lparr>vit_name := Value ''eva_clip_g''\<rparr>,
         example_world\<lparr>ext := [''create_eva_vit_g'', ''LayerNorm'']\<rparr>)
   \<and> init_vision_encoder example_vision_lib ''clip_L'' 224 0 False ''fp16'' ''models''
        example_self example_world =
        (Inr (24, 1024), example_self\<lparr>vit_name := Value ''clip_L''\<rparr>,
         example_world\<lparr>ext := [''create_clip_vit_L'', ''LayerNorm'']\<rparr>)"
proof -
  have outside: "''vit_b'' \<notin> {''eva_clip_g'', ''eva2_clip_L'', ''clip_L''}"
    by simp
  have eva: "create_eva_vit_g example_vision_lib 224 0 False ''fp16'' ''models''
        (ext example_world) = (Inr 40, [''create_eva_vit_g'']) \<and>
      LayerNorm example_vision_lib (num_features example_vision_lib 40) [''create_eva_vit_g''] =
        (Inr 1408, [''create_eva_vit_g'', ''LayerNorm''])"
    by (simp add: example_vision_lib_def example_world_def)
  have clip: "create_clip_vit_L example_vision_lib 224 False ''fp16'' ''models''
        (ext example_world) = (Inr 24, [''create_clip_vit_L'']) \<and>
      LayerNorm example_vision_lib (num_features example_vision_lib 24) [''create_clip_vit_L''] =
        (Inr 1024, [''create_clip_vit_L'', ''LayerNorm''])"
    by (simp add: example_vision_lib_def example_world_def)
  have 1: "\<exists>m. init_vision_encoder example_vision_lib ''vit_b'' 224 0 False ''fp16'' ''models''
           example_self example_world = (Inl (AssertionError m), example_self, example_world)"
    by (rule mp [OF conjunct1 [OF init_vision_encoder_behaviour] outside])
  have 2: "init_vision_encoder example_vision_lib ''eva_clip_g'' 224 0 False ''fp16'' ''models''
        example_self example_world =
        (Inr (40, 1408), example_self\<lparr>vit_name := Value ''eva_clip_g''\<rparr>,
         example_world\<lparr>ext := [''create_eva_vit_g'', ''LayerNorm'']\<rparr>)"
    by (rule mp [OF spec [OF spec [OF spec [OF spec
          [OF conjunct1 [OF conjunct2 [OF init_vision_encoder_behaviour]]]]]] eva])
  have 3: "init_vision_encoder example_vision_lib ''clip_L'' 224 0 False ''fp16'' ''models''
        example_self example_world =
        (Inr (24, 1024), example_self\<lparr>vit_name := Value ''clip_L''\<rparr>,
         example_world\<lparr>ext := [''create_clip_vit_L'', ''LayerNorm'']\<rparr>)"
    by (rule mp [OF spec [OF spec [OF spec [OF spec
          [OF conjunct2 [OF conjunct2 [OF init_vision_encoder_behaviour]]]]]] clip])
  show ?thesis
    by (rule conjI [OF 1 conjI [OF 2 3]])
qed

text \<open>
  C8. With \<open>model_name = "eva2_clip_L"\<close> the assertion passes, neither branch assigns
  \<open>visual_encoder\<close>, and the read of it on line 76 raises the unbound-local error: no
  constructor is called and \<open>vit_name\<close> is not assigned.
\<close>

theorem init_vision_encoder_eva2_clip_L:
  "init_vision_encoder L ''eva2_clip_L'' img_size drop_path_rate use_grad_checkpoint precision
     model_root_dir self w = (Inl (UnboundLocalError ''visual_encoder''), self, w)
   \<and> ''eva2_clip_L'' \<in> set [''eva_clip_g'', ''eva2_clip_L'', ''clip_L'']"
  by (simp add: init_vision_encoder_def)

theorem init_vision_encoder_eva2_clip_L_witness:
  "init_vision_encoder example_vision_lib ''eva2_clip_L'' 224 0 False ''fp16'' ''models''
     example_self example_world =
     (Inl (UnboundLocalError ''visual_encoder''), example_self, example_world)"
  using init_vision_encoder_eva2_clip_L
    [of example_vision_lib 224 0 False "''fp16''" "''models''" example_self example_world]
  by simp

subsection \<open>The lemmatizer\<close>

text \<open>
  What the clause \<open>except ImportError\<close> handles. On an access that finds the stored field
  \<open>None\<close>: if \<open>import spacy\<close> raises an \<open>ImportError\<close>, or \<open>spacy.load("en_core_web_sm")\<close>
  does, the property logs the error message and raises \<open>SystemExit(1)\<close>; it returns no
  lemmatizer and the field stays \<open>None\<close>.
\<close>

lemma lemmatizer_ImportError_exits:
  "lemmatizer_field self = Value None \<and> is_ImportError S e \<and>
   (import_spacy S (ext w) = (Inl e, x) \<or>
    (\<exists>spacy x0. import_spacy S (ext w) = (Inr spacy, x0) \<and>
       spacy_load S spacy ''en_core_web_sm'' x0 = (Inl e, x))) \<longrightarrow>
   lemmatizer S self w =
     (Inl (SystemExit 1), self, logging ERROR lemmatizer_hint (w\<lparr>ext := x\<rparr>))"
  by (auto simp: lemmatizer_def load_spacy_def call_def)

text \<open>So it is when the package \<open>spacy\<close> is missing.\<close>

lemma lemmatizer_no_spacy_exits:
  "lemmatizer example_no_spacy example_self example_world =
     (Inl (SystemExit 1), example_self,
      example_world\<lparr>log_records := [(ERROR, lemmatizer_hint)], ext := [''import spacy'']\<rparr>)"
  by (simp add: lemmatizer_def load_spacy_def call_def logging_def example_no_spacy_def
        example_spacy_lib_def example_self_def example_world_def)

text \<open>
  Any other exception of the \<open>try\<close> block passes through the \<open>except\<close> clause: nothing
  is logged and the field stays \<open>None\<close>.
\<close>

lemma lemmatizer_other_error_propagates:
  "lemmatizer_field self = Value None \<Longrightarrow> load_spacy S w = (Inl (LibraryError e), w1) \<Longrightarrow>
   \<not> is_ImportError S e \<Longrightarrow> lemmatizer S self w = (Inl (LibraryError e), self, w1)"
  by (simp add: lemmatizer_def)

text \<open>
  C3. The claim is what the handler is written for: its message asks to install \<open>spacy\<close>
  and the model \<open>en_core_web_sm\<close>. The code does it for the package and misses the
  model. With \<open>spacy\<close> installed and the model not, \<open>import spacy\<close> returns and
  \<open>spacy.load("en_core_web_sm")\<close> raises \<open>OSError\<close>, which \<open>except ImportError\<close> does not
  handle: the \<open>OSError\<close> leaves the property, no message is logged, and \<open>exit(1)\<close> is not
  reached.
\<close>

theorem lemmatizer_missing_model_not_handled:
  "lemmatizer example_no_model example_self example_world =
     (Inl (LibraryError ''OSError''), example_self,
      example_world\<lparr>ext := [''import spacy'', ''spacy.load'']\<rparr>)
   \<and> log_records (snd (snd (lemmatizer example_no_model example_self example_world))) = []
   \<and> fst (lemmatizer example_no_model example_self example_world) \<noteq> Inl (SystemExit 1)"
  by (simp add: lemmatizer_def load_spacy_def call_def example_no_model_def
        example_spacy_lib_def example_self_def example_world_def)

lemma accesses_stored:
  "lemmatizer_field self = Value (Some l) \<Longrightarrow>
   accesses S n self w = (Inr (replicate n l), self, w)"
  by (induction n) (simp_all add: lemmatizer_def)

text \<open>
  C4. The property is a lazily initialised singleton. An access that finds an object in
  the stored field returns that object and changes neither the instance nor the world,
  whatever the library: nothing is imported or loaded. Only an access that finds \<open>None\<close>
  imports \<open>spacy\<close> and loads the model; when that returns, the object is stored and
  returned, and every run of later accesses returns this same object with the instance
  unchanged. An access that does not find \<open>None\<close> never changes the instance.
\<close>

theorem lemmatizer_lazy_singleton:
  "(\<forall>l. lemmatizer_field self = Value (Some l) \<longrightarrow> lemmatizer S self w = (Inr l, self, w))
   \<and> (\<forall>l w1. lemmatizer_field self = Value None \<and> load_spacy S w = (Inr l, w1) \<longrightarrow>
        lemmatizer S self w = (Inr l, self\<lparr>lemmatizer_field := Value (Some l)\<rparr>, w1) \<and>
        (\<forall>n S' w'. accesses S' n (self\<lparr>lemmatizer_field := Value (Some l)\<rparr>) w' =
           (Inr (replicate n l), self\<lparr>lemmatizer_field := Value (Some l)\<rparr>, w')))
   \<and> (lemmatizer_field self \<noteq> Value None \<longrightarrow> snd (lemmatizer S self w) = (self, w))"
proof (intro conjI allI impI)
  fix l assume "lemmatizer_field self = Value (Some l)"
  then show "lemmatizer S self w = (Inr l, self, w)"
    by (simp add: lemmatizer_def)
next
  fix l w1 assume "lemmatizer_field self = Value None \<and> load_spacy S w = (Inr l, w1)"
  then show "lemmatizer S self w = (Inr l, self\<lparr>lemmatizer_field := Value (Some l)\<rparr>, w1)"
    by (simp add: lemmatizer_def)
next
  fix l n S' w'
  show "accesses S' n (self\<lparr>lemmatizer_field := Value (Some l)\<rparr>) w' =
           (Inr (replicate n l), self\<lparr>lemmatizer_field := Value (Some l)\<rparr>, w')"
    by (rule accesses_stored) simp
next
  assume "lemmatizer_field self \<noteq> Value None"
  then show "snd (lemmatizer S self w) = (self, w)"
    by (cases "lemmatizer_field self") (auto simp: lemmatizer_def split: option.splits)
qed

theorem lemmatizer_lazy_singleton_witness:
  "lemmatizer example_spacy_lib example_self example_world =
     (Inr ''nlp en_core_web_sm'',
      example_self\<lparr>lemmatizer_field := Value (Some ''nlp en_core_web_sm'')\<rparr>,
      example_world\<lparr>ext := [''import spacy'', ''spacy.load'']\<rparr>)
   \<and> accesses example_no_spacy 3
       (example_self\<lparr>lemmatizer_field := Value (Some ''nlp en_core_web_sm'')\<rparr>)
       (example_world\<lparr>ext := [''import spacy'', ''spacy.load'']\<rparr>) =
     (Inr [''nlp en_core_web_sm'', ''nlp en_core_web_sm'', ''nlp en_core_web_sm''],
      example_self\<lparr>lemmatizer_field := Value (Some ''nlp en_core_web_sm'')\<rparr>,
      example_world\<lparr>ext := [''import spacy'', ''spacy.load'']\<rparr>)"
proof -
  have first: "lemmatizer_field example_self = Value None \<and>
      load_spacy example_spacy_lib example_world =
        (Inr ''nlp en_core_web_sm'', example_world\<lparr>ext := [''import spacy'', ''spacy.load'']\<rparr>)"
    by (simp add: example_self_def load_spacy_def call_def example_spacy_lib_def
          example_world_def)
  note both = mp [OF spec [OF spec [OF conjunct1 [OF conjunct2
      [OF lemmatizer_lazy_singleton [of example_self example_spacy_lib example_world]]]]] first]
  have later: "accesses example_no_spacy 3
       (example_self\<lparr>lemmatizer_field := Value (Some ''nlp en_core_web_sm'')\<rparr>)
       (example_world\<lparr>ext := [''import spacy'', ''spacy.load'']\<rparr>) =
     (Inr (replicate 3 ''nlp en_core_web_sm''),
      example_self\<lparr>lemmatizer_field := Value (Some ''nlp en_core_web_sm'')\<rparr>,
      example_world\<lparr>ext := [''import spacy'', ''spacy.load'']\<rparr>)"
    by (rule spec [OF spec [OF spec [OF conjunct2 [OF both]]]])
  have "replicate 3 ''nlp en_core_web_sm'' =
      [''nlp en_core_web_sm'', ''nlp en_core_web_sm'', ''nlp en_core_web_sm'']"
    by (simp add: numeral_3_eq_3)
  with later conjunct1 [OF both] show ?thesis
    by simp
qed

subsection \<open>The tokenizer and the Q-Former\<close>

text \<open>
  C7. \<open>init_tokenizer(truncation_side)\<close> fetches the tokenizer \<open>bert-base-uncased\<close> by name
  with the given \<open>truncation_side\<close>, calls \<open>add_special_tokens\<close> on it with the one entry
  \<open>bos_token: [DEC]\<close>, and returns the tokenizer as that call left it; it returns whenever
  the two library calls do. Without an argument the side is \<open>right\<close>.
\<close>

theorem init_tokenizer_behaviour:
  "(\<forall>tokenizer x1 tokenizer' n x2.
      BertTokenizer_from_pretrained L ''bert-base-uncased'' truncation_side (ext w) =
        (Inr tokenizer, x1) \<and>
      add_special_tokens L tokenizer [(''bos_token'', ''[DEC]'')] x1 =
        (Inr (tokenizer', n), x2) \<longrightarrow>
      init_tokenizer L truncation_side w = (Inr tokenizer', w\<lparr>ext := x2\<rparr>))
   \<and> init_tokenizer_default L w = init_tokenizer L ''right'' w"
  by (simp add: init_tokenizer_def init_tokenizer_default_def call_def)

theorem init_tokenizer_behaviour_witness:
  "init_tokenizer example_tokenizer_lib ''left'' example_world =
     (Inr (''left'', [(''bos_token'', ''[DEC]'')]),
      example_world\<lparr>ext := [''bert-base-uncased'', ''add_special_tokens'']\<rparr>)"
proof -
  have calls: "BertTokenizer_from_pretrained example_tokenizer_lib ''bert-base-uncased''
        ''left'' (ext example_world) = (Inr (''left'', []), [''bert-base-uncased'']) \<and>
      add_special_tokens example_tokenizer_lib (''left'', []) [(''bos_token'', ''[DEC]'')]
        [''bert-base-uncased''] =
        (Inr ((''left'', [(''bos_token'', ''[DEC]'')]), 1),
         [''bert-base-uncased'', ''add_special_tokens''])"
    by (simp add: example_tokenizer_lib_def example_world_def)
  show ?thesis
    by (rule mp [OF spec [OF spec [OF spec [OF spec [OF spec
          [OF conjunct1 [OF init_tokenizer_behaviour]]]]]] calls])
qed

text \<open>
  C5. For every \<open>num_query_token\<close>, \<open>vision_width\<close> and \<open>cross_attention_freq\<close>: when the
  library calls return, \<open>init_Qformer\<close> returns the model that
  \<open>BertLMHeadModel.from_pretrained\<close> built for a configuration in which
  \<open>add_cross_attention\<close> is true, \<open>cross_attention_freq\<close> and \<open>query_length\<close> are the
  arguments and \<open>encoder_width\<close> is \<open>vision_width\<close> (its other attributes as
  \<open>BertConfig.from_pretrained\<close> gave them), together with the \<open>nn.Parameter\<close> made of
  \<open>torch.zeros(1, num_query_token, hidden_size)\<close> whose contents \<open>normal_\<close>, called on
  \<open>query_tokens.data\<close>, has drawn with mean \<open>0\<close> and standard deviation
  \<open>initializer_range\<close>. The default of
  \<open>cross_attention_freq\<close> is \<open>2\<close>.
\<close>

theorem init_Qformer_behaviour:
  "(\<forall>c x1 Qformer x2 z x3 query_tokens x4 d x5.
      BertConfig_from_pretrained L ''bert-base-uncased'' (ext w) = (Inr c, x1) \<and>
      BertLMHeadModel_from_pretrained L ''bert-base-uncased''
        (c\<lparr>encoder_width := vision_width, add_cross_attention := True,
           cross_attention_freq := freq, query_length := num_query_token\<rparr>) x1 =
        (Inr Qformer, x2) \<and>
      torch_zeros L [1, num_query_token, hidden_size c] x2 = (Inr z, x3) \<and>
      Parameter L z x3 = (Inr query_tokens, x4) \<and>
      Tensor_normal L (Tensor_data query_tokens) 0 (initializer_range c) x4 = (Inr d, x5) \<longrightarrow>
      init_Qformer L num_query_token vision_width freq w =
        (Inr (Qformer, query_tokens\<lparr>data := d\<rparr>), w\<lparr>ext := x5\<rparr>))
   \<and> (\<forall>c. let c' = c\<lparr>encoder_width := vision_width, add_cross_attention := True,
                     cross_attention_freq := freq, query_length := num_query_token\<rparr>
         in add_cross_attention c' \<and> cross_attention_freq c' = freq \<and>
            query_length c' = num_query_token \<and> encoder_width c' = vision_width \<and>
            hidden_size c' = hidden_size c \<and> initializer_range c' = initializer_range c \<and>
            config.more c' = config.more c)
   \<and> init_Qformer_default L num_query_token vision_width w =
       init_Qformer L num_query_token vision_width 2 w"
  by (simp add: init_Qformer_def init_Qformer_default_def call_def Let_def)

theorem init_Qformer_behaviour_witness:
  "init_Qformer example_qformer_lib 32 1408 2 example_world =
     (Inr (example_config\<lparr>encoder_width := 1408, add_cross_attention := True,
             cross_attention_freq := 2, query_length := 32\<rparr>,
           \<lparr>shape = [1, 32, 768], dtype = Float32, requires_grad = True, data = ''normal''\<rparr>),
      example_world\<lparr>ext := [''config'', ''model'', ''zeros'', ''Parameter'', ''normal_'']\<rparr>)"
proof -
  have calls:
    "BertConfig_from_pretrained example_qformer_lib ''bert-base-uncased'' (ext example_world) =
       (Inr example_config, [''config'']) \<and>
     BertLMHeadModel_from_pretrained example_qformer_lib ''bert-base-uncased''
        (example_config\<lparr>encoder_width := 1408, add_cross_attention := True,
           cross_attention_freq := 2, query_length := 32\<rparr>) [''config''] =
       (Inr (example_config\<lparr>encoder_width := 1408, add_cross_attention := True,
           cross_attention_freq := 2, query_length := 32\<rparr>), [''config'', ''model'']) \<and>
     torch_zeros example_qformer_lib [1, 32, hidden_size example_config] [''config'', ''model''] =
       (Inr \<lparr>shape = [1, 32, 768], dtype = Float32, requires_grad = False, data = ''zeros''\<rparr>,
        [''config'', ''model'', ''zeros'']) \<and>
     Parameter example_qformer_lib
        \<lparr>shape = [1, 32, 768], dtype = Float32, requires_grad = False, data = ''zeros''\<rparr>
        [''config'', ''model'', ''zeros''] =
       (Inr \<lparr>shape = [1, 32, 768], dtype = Float32, requires_grad = True, data = ''zeros''\<rparr>,
        [''config'', ''model'', ''zeros'', ''Parameter'']) \<and>
     Tensor_normal example_qformer_lib
        (Tensor_data
           \<lparr>shape = [1, 32, 768], dtype = Float32, requires_grad = True, data = ''zeros''\<rparr>)
        0 (initializer_range example_config) [''config'', ''model'', ''zeros'', ''Parameter''] =
       (Inr ''normal'', [''config'', ''model'', ''zeros'', ''Parameter'', ''normal_''])"
    by (simp add: example_qformer_lib_def example_world_def example_config_def Tensor_data_def)
  have "init_Qformer example_qformer_lib 32 1408 2 example_world =
     (Inr (example_config\<lparr>encoder_width := 1408, add_cross_attention := True,
             cross_attention_freq := 2, query_length := 32\<rparr>,
           \<lparr>shape = [1, 32, 768], dtype = Float32, requires_grad = True, data = ''zeros''\<rparr>
             \<lparr>data := ''normal''\<rparr>),
      example_world\<lparr>ext := [''config'', ''model'', ''zeros'', ''Parameter'', ''normal_'']\<rparr>)"
    by (rule mp [OF spec [OF spec [OF spec [OF spec [OF spec [OF spec [OF spec [OF spec
          [OF spec [OF spec [OF conjunct1 [OF init_Qformer_behaviour]]]]]]]]]]] calls])
  then show ?thesis
    by simp
qed

subsection \<open>\<open>LayerNorm.forward\<close>\<close>

text \<open>
  C10. \<open>LayerNorm.forward\<close> hands \<open>nn.LayerNorm.forward\<close> the input cast to \<open>float32\<close>;
  when that returns, \<open>forward\<close> returns its result cast to the dtype of the input. So
  every tensor that \<open>forward\<close> returns for an input \<open>x\<close> has the dtype of \<open>x\<close>, a
  half-precision input giving a half-precision output, and \<open>forward\<close> returns a tensor
  exactly when \<open>nn.LayerNorm.forward\<close> does.
\<close>

theorem forward_keeps_dtype:
  "dtype (Tensor_type L x Float32) = Float32
   \<and> (\<forall>ret x1. nn_LayerNorm_forward L self (Tensor_type L x Float32) (ext w) = (Inr ret, x1)
        \<longrightarrow> forward L self x w = (Inr (Tensor_type L ret (dtype x)), w\<lparr>ext := x1\<rparr>))
   \<and> (\<forall>y w'. forward L self x w = (Inr y, w') \<longrightarrow>
        dtype y = dtype x \<and>
        (\<exists>ret x1. nn_LayerNorm_forward L self (Tensor_type L x Float32) (ext w) = (Inr ret, x1)
           \<and> y = Tensor_type L ret (dtype x)))"
  by (auto simp: forward_def Tensor_type_def call_def Let_def split: prod.splits sum.splits)

theorem forward_keeps_dtype_witness:
  "forward example_layernorm_lib 4
     \<lparr>shape = [2, 4], dtype = Float16, requires_grad = False, data = 7\<rparr> example_world =
     (Inr \<lparr>shape = [2, 4], dtype = Float16, requires_grad = False, data = 8\<rparr>,
      example_world\<lparr>ext := [''forward'']\<rparr>)"
proof -
  have super: "nn_LayerNorm_forward example_layernorm_lib 4
      (Tensor_type example_layernorm_lib
         \<lparr>shape = [2, 4], dtype = Float16, requires_grad = False, data = 7\<rparr> Float32)
      (ext example_world) =
      (Inr \<lparr>shape = [2, 4], dtype = Float32, requires_grad = False, data = 8\<rparr>, [''forward''])"
    by (simp add: example_layernorm_lib_def Tensor_type_def example_world_def)
  have "forward example_layernorm_lib 4
     \<lparr>shape = [2, 4], dtype = Float16, requires_grad = False, data = 7\<rparr> example_world =
     (Inr (Tensor_type example_layernorm_lib
        \<lparr>shape = [2, 4], dtype = Float32, requires_grad = False, data = 8\<rparr>
        (dtype \<lparr>shape = [2, 4], dtype = Float16, requires_grad = False, data = 7::nat\<rparr>)),
      example_world\<lparr>ext := [''forward'']\<rparr>)"
    by (rule mp [OF spec [OF spec [OF conjunct1 [OF conjunct2 [OF forward_keeps_dtype]]]] super])
  then show ?thesis
    by (simp add: Tensor_type_def example_layernorm_lib_def)
qed

subsection \<open>Optimizer parameter groups\<close>

text \<open>
  C9. When \<open>vit_name\<close> is not \<open>eva_clip_g\<close>, \<open>get_optimizer_params\<close> delegates to
  \<open>super().get_optimizer_params\<close>; when no class after \<open>Blip2Base\<close> defines the method, as
  with the one base \<open>nn.Module\<close>, the call raises \<open>AttributeError\<close>, for every
  \<open>weight_decay\<close> and \<open>lr_scale\<close>.
\<close>

theorem get_optimizer_params_delegates:
  "(vit_name self = Value name \<and> name \<noteq> ''eva_clip_g'' \<and>
    super_get_optimizer_params L = None \<longrightarrow>
      get_optimizer_params L weight_decay' lr_scale' self =
        Inl (AttributeError ''get_optimizer_params''))
   \<and> (\<forall>f. vit_name self = Value name \<and> name \<noteq> ''eva_clip_g'' \<and>
        super_get_optimizer_params L = Some f \<longrightarrow>
      get_optimizer_params L weight_decay' lr_scale' self = f weight_decay' lr_scale')"
  by (simp add: get_optimizer_params_def)

theorem get_optimizer_params_delegates_witness:
  "get_optimizer_params example_optim_lib (5 / 100) (9 / 10)
     (example_self\<lparr>vit_name := Value ''clip_L''\<rparr>) =
     Inl (AttributeError ''get_optimizer_params'')"
proof -
  have other: "vit_name (example_self\<lparr>vit_name := Value ''clip_L''\<rparr>) = Value ''clip_L'' \<and>
      ''clip_L'' \<noteq> ''eva_clip_g'' \<and> super_get_optimizer_params example_optim_lib = None"
    by (simp add: example_optim_lib_def)
  show ?thesis
    by (rule mp [OF conjunct1 [OF get_optimizer_params_delegates] other])
qed

subsection \<open>Layer-wise learning-rate decay\<close>

lemma digit_inj: "d < 10 \<Longrightarrow> d' < 10 \<Longrightarrow> digit d = digit d' \<Longrightarrow> d = d'"
proof -
  assume a: "d < 10" "d' < 10" "digit d = digit d'"
  have "distinct ''0123456789''" by simp
  moreover have "d < length ''0123456789''" "d' < length ''0123456789''" using a by simp_all
  ultimately show ?thesis using a(3) unfolding digit_def
    by (simp only: nth_eq_iff_index_eq)
qed

lemma digit_in: "d < 10 \<Longrightarrow> digit d \<in> set ''0123456789''"
  unfolding digit_def by (rule nth_mem) simp

lemma digits_set: "set (digits n) \<subseteq> set ''0123456789''"
proof (induction n rule: digits.induct)
  case (1 n)
  show ?case
  proof (cases "n < 10")
    case True
    then show ?thesis using digit_in [of n] by (subst digits.simps) simp
  next
    case False
    have "n mod 10 < 10" by simp
    then have "digit (n mod 10) \<in> set ''0123456789''" by (rule digit_in)
    with False 1 show ?thesis by (subst digits.simps) simp
  qed
qed

lemma digits_nonempty: "digits n \<noteq> []"
  by (subst digits.simps) simp

lemma digits_length: "10 \<le> n \<Longrightarrow> 2 \<le> length (digits n)"
proof -
  assume "10 \<le> n"
  then have "digits n = digits (n div 10) @ [digit (n mod 10)]"
    by (subst digits.simps) simp
  moreover have "1 \<le> length (digits (n div 10))"
    using digits_nonempty [of "n div 10"] by (cases "digits (n div 10)") simp_all
  ultimately show ?thesis by simp
qed

lemma digits_inj: "digits n = digits m \<Longrightarrow> n = m"
proof (induction n arbitrary: m rule: digits.induct)
  case (1 n)
  show ?case
  proof (cases "n < 10")
    case n: True
    then have dn: "digits n = [digit n]" by (subst digits.simps) simp
    show ?thesis
    proof (cases "m < 10")
      case True
      then have "digits m = [digit m]" by (subst digits.simps) simp
      with dn "1.prems" n True show ?thesis by (simp add: digit_inj)
    next
      case False
      then have "2 \<le> length (digits m)" by (simp add: digits_length)
      with dn "1.prems" show ?thesis by simp
    qed
  next
    case n: False
    then have dn: "digits n = digits (n div 10) @ [digit (n mod 10)]"
      by (subst digits.simps) simp
    show ?thesis
    proof (cases "m < 10")
      case True
      then have "digits m = [digit m]" by (subst digits.simps) simp
      moreover have "2 \<le> length (digits n)" using n by (simp add: digits_length)
      ultimately show ?thesis using "1.prems" by simp
    next
      case False
      then have dm: "digits m = digits (m div 10) @ [digit (m mod 10)]"
        by (subst digits.simps) simp
      from dn dm "1.prems" have a: "digits (n div 10) = digits (m div 10)"
        and b: "digit (n mod 10) = digit (m mod 10)" by simp_all
      from n a have "n div 10 = m div 10" by (rule "1.IH")
      moreover from b have "n mod 10 = m mod 10" by (rule digit_inj [rotated 2]) simp_all
      ultimately show ?thesis by (metis div_mult_mod_eq)
    qed
  qed
qed

lemma digits_no_underscore: "CHR ''_'' \<notin> set (digits n)"
proof
  assume "CHR ''_'' \<in> set (digits n)"
  then have "CHR ''_'' \<in> set ''0123456789''" by (rule subsetD [OF digits_set])
  then show False by simp
qed

lemma digits_no_minus: "CHR ''-'' \<notin> set (digits n)"
proof
  assume "CHR ''-'' \<in> set (digits n)"
  then have "CHR ''-'' \<in> set ''0123456789''" by (rule subsetD [OF digits_set])
  then show False by simp
qed

lemma format_d_no_underscore: "CHR ''_'' \<notin> set (format_d i)"
  by (simp add: format_d_def digits_no_underscore)

lemma format_d_inj: "format_d i = format_d j \<Longrightarrow> i = j"
proof -
  assume eq: "format_d i = format_d j"
  have nominus: "\<And>n. hd (digits n) \<noteq> CHR ''-''"
  proof -
    fix n
    have "hd (digits n) \<in> set (digits n)" using digits_nonempty by simp
    with digits_no_minus [of n] show "hd (digits n) \<noteq> CHR ''-''" by metis
  qed
  show ?thesis
  proof (cases "i < 0")
    case i: True
    show ?thesis
    proof (cases "j < 0")
      case True
      with i eq have "digits (nat (- i)) = digits (nat (- j))" by (simp add: format_d_def)
      then have "nat (- i) = nat (- j)" by (rule digits_inj)
      with i True show ?thesis by simp
    next
      case False
      with i eq have "CHR ''-'' # digits (nat (- i)) = digits (nat j)" by (simp add: format_d_def)
      then have "hd (digits (nat j)) = CHR ''-''" by (metis list.sel(1))
      with nominus show ?thesis by blast
    qed
  next
    case i: False
    show ?thesis
    proof (cases "j < 0")
      case True
      with i eq have "digits (nat i) = CHR ''-'' # digits (nat (- j))" by (simp add: format_d_def)
      then have "hd (digits (nat i)) = CHR ''-''" by (metis list.sel(1))
      with nominus show ?thesis by blast
    next
      case False
      with i eq have "digits (nat i) = digits (nat j)" by (simp add: format_d_def)
      then have "nat i = nat j" by (rule digits_inj)
      with i False show ?thesis by simp
    qed
  qed
qed

lemma split_at_char:
  "c \<notin> set xs \<Longrightarrow> c \<notin> set ys \<Longrightarrow> xs @ c # u = ys @ c # v \<Longrightarrow> xs = ys \<and> u = v"
proof (induction xs arbitrary: ys)
  case Nil
  then show ?case by (cases ys) auto
next
  case (Cons x xs)
  then show ?case by (cases ys) auto
qed

lemma group_key_inj:
  "group_key layer nd = group_key layer' nd' \<Longrightarrow> layer = layer' \<and> nd = nd'"
proof -
  assume eq: "group_key layer nd = group_key layer' nd'"
  note us = format_d_no_underscore
  have base: "\<And>b b'. (if b then ''no_decay'' else ''decay'') = (if b' then ''no_decay'' else ''decay'') \<Longrightarrow> b = b'"
    by (simp split: if_splits)
  show ?thesis
  proof (cases layer)
    case None
    show ?thesis
    proof (cases layer')
      case n': None
      with None eq base show ?thesis by (simp add: group_key_def)
    next
      case (Some j)
      with None eq show ?thesis by (simp add: group_key_def split: if_splits)
    qed
  next
    case (Some i)
    show ?thesis
    proof (cases layer')
      case None
      with Some eq show ?thesis by (simp add: group_key_def split: if_splits)
    next
      case s': (Some j)
      from Some s' eq have "format_d i @ CHR ''_'' # (if nd then ''no_decay'' else ''decay'')
          = format_d j @ CHR ''_'' # (if nd' then ''no_decay'' else ''decay'')"
        by (simp add: group_key_def)
      then have "format_d i = format_d j \<and>
          (if nd then ''no_decay'' else ''decay'') = (if nd' then ''no_decay'' else ''decay'')"
        by (rule split_at_char [OF us us])
      with Some s' base show ?thesis by (auto dest: format_d_inj)
    qed
  qed
qed

lemma getitem_layer_scales:
  "0 \<le> i \<Longrightarrow> i \<le> N + 1 \<Longrightarrow> getitem (layer_scales lr N) i = Inr (lr ^ nat (N + 1 - i))"
  by (simp add: getitem_def layer_scales_def)

lemma group_param_frozen:
  "\<not> requires_grad param \<Longrightarrow> group_param L v wd scales name param st = Inr st"
  by (simp add: group_param_def)

lemma group_param_trainable:
  assumes "fst ` set names = fst ` set vars" and "requires_grad param"
    and "in_range L v N name"
  shows "group_param L v wd (layer_scales lr N) name param (names, vars) =
     Inr (insert_group (group_key (layer_of L v name) (no_decay name param)) name
            (if no_decay name param then 0 else wd) (scale_of lr N (layer_of L v name)) names,
          insert_group (group_key (layer_of L v name) (no_decay name param)) param
            (if no_decay name param then 0 else wd) (scale_of lr N (layer_of L v name)) vars)"
proof (cases "sublist ''visual_encoder'' name")
  case False
  with assms(1,2) show ?thesis
    by (simp add: group_param_def layer_of_def group_key_def no_decay_def scale_of_def
          insert_group_def)
next
  case True
  with assms(3) obtain i where i: "get_num_layer L v (replace ''visual_encoder.'' [] name) = Inr i"
      "0 \<le> i" "i \<le> N + 1"
    by (auto simp: in_range_def split: sum.splits)
  note g = getitem_layer_scales [OF i(2,3)]
  from True i(1) have lo: "layer_of L v name = Some i"
    by (simp add: layer_of_def)
  show ?thesis
    using True i(1) assms(1,2) unfolding lo
    by (simp add: g group_param_def group_key_def no_decay_def scale_of_def insert_group_def)
qed

lemma keys_insert_group: "fst ` set (insert_group k p w0 sc gs) = insert k (fst ` set gs)"
  by (force simp: insert_group_def append_param_def image_iff split: if_splits)

lemma insert_group_cases:
  assumes "(k', g') \<in> set (insert_group k p w0 sc gs)"
  shows "(k' \<noteq> k \<and> (k', g') \<in> set gs)
       \<or> (k' = k \<and> (\<exists>g. (k, g) \<in> set gs \<and> g' = g\<lparr>params := params g @ [p]\<rparr>))
       \<or> (k' = k \<and> k \<notin> fst ` set gs \<and> g' = \<lparr>weight_decay = w0, params = [p], lr_scale = sc\<rparr>)"
  using assms
  by (auto simp: insert_group_def append_param_def image_iff split: if_splits)

lemma insert_group_keeps:
  assumes "(k', g) \<in> set gs"
  shows "\<exists>g'. (k', g') \<in> set (insert_group k p w0 sc gs) \<and> set (params g) \<subseteq> set (params g')"
proof (cases "k' = k")
  case True
  with assms have "(k', g\<lparr>params := params g @ [p]\<rparr>) \<in> set (insert_group k p w0 sc gs)"
    by (force simp: insert_group_def append_param_def image_iff)
  then show ?thesis by (intro exI [of _ "g\<lparr>params := params g @ [p]\<rparr>"]) auto
next
  case False
  with assms have "(k', g) \<in> set (insert_group k p w0 sc gs)"
    by (force simp: insert_group_def append_param_def image_iff)
  then show ?thesis by blast
qed

lemma insert_group_has:
  "\<exists>g'. (k, g') \<in> set (insert_group k p w0 sc gs) \<and> p \<in> set (params g')"
proof (cases "k \<in> fst ` set gs")
  case True
  then obtain g where "(k, g) \<in> set gs" by auto
  then have "(k, g\<lparr>params := params g @ [p]\<rparr>) \<in> set (insert_group k p w0 sc gs)"
    by (force simp: insert_group_def append_param_def image_iff)
  then show ?thesis by (intro exI [of _ "g\<lparr>params := params g @ [p]\<rparr>"]) auto
next
  case False
  then have "(k, \<lparr>weight_decay = w0, params = [p], lr_scale = sc\<rparr>)
      \<in> set (insert_group k p w0 sc gs)"
    by (simp add: insert_group_def append_param_def)
  then show ?thesis by (intro exI [of _ "\<lparr>weight_decay = w0, params = [p], lr_scale = sc\<rparr>"]) auto
qed

lemma members_inv_step:
  assumes inv: "members_inv L v seen vars"
  shows "members_inv L v (seen @ [(name, param)])
           (insert_group (group_key (layer_of L v name) (no_decay name param)) param w0 sc vars)"
  unfolding members_inv_def
proof (intro allI impI)
  fix n p
  assume mem: "(n, p) \<in> set (seen @ [(name, param)])" and rg: "requires_grad p"
  let ?k = "group_key (layer_of L v name) (no_decay name param)"
  show "\<exists>g. (group_key (layer_of L v n) (no_decay n p), g) \<in> set (insert_group ?k param w0 sc vars)
          \<and> p \<in> set (params g)"
  proof (cases "(n, p) \<in> set seen")
    case True
    with inv rg obtain g where g: "(group_key (layer_of L v n) (no_decay n p), g) \<in> set vars"
        and pg: "p \<in> set (params g)"
      unfolding members_inv_def by blast
    from insert_group_keeps [OF g, of ?k param w0 sc]
    obtain g' where "(group_key (layer_of L v n) (no_decay n p), g')
          \<in> set (insert_group ?k param w0 sc vars)" "set (params g) \<subseteq> set (params g')"
      by blast
    with pg show ?thesis by blast
  next
    case False
    with mem have "n = name" "p = param" by simp_all
    then show ?thesis using insert_group_has [of ?k param w0 sc vars] by simp
  qed
qed

lemma members_inv_skip:
  assumes "members_inv L v seen vars" and "\<not> requires_grad param"
  shows "members_inv L v (seen @ [(name, param)]) vars"
  unfolding members_inv_def
proof (intro allI impI)
  fix n p
  assume mem: "(n, p) \<in> set (seen @ [(name, param)])" and rg: "requires_grad p"
  with assms(2) have "(n, p) \<in> set seen" by auto
  with assms(1) rg show "\<exists>g. (group_key (layer_of L v n) (no_decay n p), g) \<in> set vars
          \<and> p \<in> set (params g)"
    unfolding members_inv_def by blast
qed

lemma groups_inv_step:
  assumes inv: "groups_inv L v wd lr N seen vars" and rg: "requires_grad param"
  shows "groups_inv L v wd lr N (seen @ [(name, param)])
           (insert_group (group_key (layer_of L v name) (no_decay name param)) param
              (if no_decay name param then 0 else wd) (scale_of lr N (layer_of L v name)) vars)"
  unfolding groups_inv_def
proof (intro allI impI)
  fix k' g'
  let ?k = "group_key (layer_of L v name) (no_decay name param)"
  let ?w0 = "if no_decay name param then 0 else wd"
  let ?sc = "scale_of lr N (layer_of L v name)"
  let ?seen = "seen @ [(name, param)]"
  assume "(k', g') \<in> set (insert_group ?k param ?w0 ?sc vars)"
  from insert_group_cases [OF this]
  consider (old) "k' \<noteq> ?k" "(k', g') \<in> set vars"
    | (upd) g where "k' = ?k" "(?k, g) \<in> set vars" "g' = g\<lparr>params := params g @ [param]\<rparr>"
    | (new) "k' = ?k" "g' = \<lparr>weight_decay = ?w0, params = [param], lr_scale = ?sc\<rparr>"
    by blast
  then show "\<exists>layer nd.
        k' = group_key layer nd \<and> weight_decay g' = (if nd then 0 else wd) \<and>
        lr_scale g' = scale_of lr N layer \<and>
        (\<forall>p. p \<in> set (params g') \<longrightarrow> (\<exists>name'. (name', p) \<in> set ?seen \<and> requires_grad p \<and>
           layer_of L v name' = layer \<and> no_decay name' p = nd))"
  proof cases
    case old
    from inv old(2) obtain layer nd where l: "k' = group_key layer nd"
        "weight_decay g' = (if nd then 0 else wd)" "lr_scale g' = scale_of lr N layer"
        and m: "\<forall>p. p \<in> set (params g') \<longrightarrow> (\<exists>name'. (name', p) \<in> set seen \<and> requires_grad p \<and>
           layer_of L v name' = layer \<and> no_decay name' p = nd)"
      unfolding groups_inv_def by blast
    have "\<forall>p. p \<in> set (params g') \<longrightarrow> (\<exists>name'. (name', p) \<in> set ?seen \<and> requires_grad p \<and>
           layer_of L v name' = layer \<and> no_decay name' p = nd)"
    proof (intro allI impI)
      fix p assume "p \<in> set (params g')"
      with m obtain name' where "(name', p) \<in> set seen" "requires_grad p"
          "layer_of L v name' = layer" "no_decay name' p = nd" by blast
      then show "\<exists>name'. (name', p) \<in> set ?seen \<and> requires_grad p \<and>
           layer_of L v name' = layer \<and> no_decay name' p = nd"
        by (intro exI [of _ name']) simp
    qed
    with l show ?thesis by blast
  next
    case upd
    from inv upd(2) obtain layer nd where l: "?k = group_key layer nd"
        "weight_decay g = (if nd then 0 else wd)" "lr_scale g = scale_of lr N layer"
        and m: "\<forall>p. p \<in> set (params g) \<longrightarrow> (\<exists>name'. (name', p) \<in> set seen \<and> requires_grad p \<and>
           layer_of L v name' = layer \<and> no_decay name' p = nd)"
      unfolding groups_inv_def by blast
    from group_key_inj [OF l(1)] have same: "layer_of L v name = layer" "no_decay name param = nd"
      by simp_all
    have "\<forall>p. p \<in> set (params g') \<longrightarrow> (\<exists>name'. (name', p) \<in> set ?seen \<and> requires_grad p \<and>
           layer_of L v name' = layer \<and> no_decay name' p = nd)"
    proof (intro allI impI)
      fix p assume "p \<in> set (params g')"
      with upd(3) have "p \<in> set (params g) \<or> p = param" by auto
      then show "\<exists>name'. (name', p) \<in> set ?seen \<and> requires_grad p \<and>
           layer_of L v name' = layer \<and> no_decay name' p = nd"
      proof
        assume "p \<in> set (params g)"
        with m obtain name' where "(name', p) \<in> set seen" "requires_grad p"
          "layer_of L v name' = layer" "no_decay name' p = nd" by blast
        then show ?thesis by (intro exI [of _ name']) simp
      next
        assume "p = param"
        with same rg show ?thesis by (intro exI [of _ name]) simp
      qed
    qed
    moreover from upd(1) l(1) have "k' = group_key layer nd" by simp
    moreover from upd(3) l(2,3) have "weight_decay g' = (if nd then 0 else wd)"
      "lr_scale g' = scale_of lr N layer" by simp_all
    ultimately show ?thesis by blast
  next
    case new
    have "\<forall>p. p \<in> set (params g') \<longrightarrow> (\<exists>name'. (name', p) \<in> set ?seen \<and> requires_grad p \<and>
           layer_of L v name' = layer_of L v name \<and> no_decay name' p = no_decay name param)"
    proof (intro allI impI)
      fix p assume "p \<in> set (params g')"
      with new(2) have "p = param" by simp
      with rg show "\<exists>name'. (name', p) \<in> set ?seen \<and> requires_grad p \<and>
           layer_of L v name' = layer_of L v name \<and> no_decay name' p = no_decay name param"
        by (intro exI [of _ name]) simp
    qed
    moreover from new(2) have "weight_decay g' = ?w0" "lr_scale g' = ?sc" by simp_all
    ultimately show ?thesis using new(1) by blast
  qed
qed

lemma groups_inv_skip:
  assumes inv: "groups_inv L v wd lr N seen vars"
  shows "groups_inv L v wd lr N (seen @ [(name, param)]) vars"
  unfolding groups_inv_def
proof (intro allI impI)
  fix k g assume "(k, g) \<in> set vars"
  with inv obtain layer nd where l: "k = group_key layer nd"
      "weight_decay g = (if nd then 0 else wd)" "lr_scale g = scale_of lr N layer"
      and m: "\<forall>p. p \<in> set (params g) \<longrightarrow> (\<exists>name'. (name', p) \<in> set seen \<and> requires_grad p \<and>
         layer_of L v name' = layer \<and> no_decay name' p = nd)"
    unfolding groups_inv_def by blast
  have "\<forall>p. p \<in> set (params g) \<longrightarrow> (\<exists>name'. (name', p) \<in> set (seen @ [(name, param)]) \<and>
         requires_grad p \<and> layer_of L v name' = layer \<and> no_decay name' p = nd)"
  proof (intro allI impI)
    fix p assume "p \<in> set (params g)"
    with m obtain name' where "(name', p) \<in> set seen" "requires_grad p"
        "layer_of L v name' = layer" "no_decay name' p = nd" by blast
    then show "\<exists>name'. (name', p) \<in> set (seen @ [(name, param)]) \<and> requires_grad p \<and>
         layer_of L v name' = layer \<and> no_decay name' p = nd"
      by (intro exI [of _ name']) simp
  qed
  with l show "\<exists>layer nd.
        k = group_key layer nd \<and> weight_decay g = (if nd then 0 else wd) \<and>
        lr_scale g = scale_of lr N layer \<and>
        (\<forall>p. p \<in> set (params g) \<longrightarrow> (\<exists>name'. (name', p) \<in> set (seen @ [(name, param)]) \<and>
           requires_grad p \<and> layer_of L v name' = layer \<and> no_decay name' p = nd))"
    by blast
qed

lemma group_params_inv:
  assumes "\<forall>name param. (name, param) \<in> set ps \<longrightarrow> requires_grad param \<longrightarrow> in_range L v N name"
    and "fst ` set names = fst ` set vars"
    and "groups_inv L v wd lr N seen vars"
    and "members_inv L v seen vars"
  shows "\<exists>names' vars'.
           group_params L v wd (layer_scales lr N) ps (names, vars) = Inr (names', vars') \<and>
           groups_inv L v wd lr N (seen @ ps) vars' \<and> members_inv L v (seen @ ps) vars'"
  using assms
proof (induction ps arbitrary: names vars seen)
  case Nil
  then show ?case by simp
next
  case (Cons np ps)
  obtain name param where np: "np = (name, param)" by (cases np)
  from Cons.prems(1) np have rest:
    "\<forall>name param. (name, param) \<in> set ps \<longrightarrow> requires_grad param \<longrightarrow> in_range L v N name"
    by simp
  show ?case
  proof (cases "requires_grad param")
    case False
    then have step: "group_param L v wd (layer_scales lr N) name param (names, vars) =
        Inr (names, vars)"
      by (rule group_param_frozen)
    from Cons.prems(3) have g: "groups_inv L v wd lr N (seen @ [(name, param)]) vars"
      by (rule groups_inv_skip)
    from Cons.prems(4) False have m: "members_inv L v (seen @ [(name, param)]) vars"
      by (rule members_inv_skip)
    from Cons.IH [OF rest Cons.prems(2) g m] step np show ?thesis
      by simp
  next
    case True
    let ?k = "group_key (layer_of L v name) (no_decay name param)"
    let ?w0 = "if no_decay name param then 0 else wd"
    let ?sc = "scale_of lr N (layer_of L v name)"
    from Cons.prems(1) np True have "in_range L v N name" by simp
    with Cons.prems(2) True
    have step: "group_param L v wd (layer_scales lr N) name param (names, vars) =
        Inr (insert_group ?k name ?w0 ?sc names, insert_group ?k param ?w0 ?sc vars)"
      by (rule group_param_trainable)
    from Cons.prems(2) have keys: "fst ` set (insert_group ?k name ?w0 ?sc names) =
        fst ` set (insert_group ?k param ?w0 ?sc vars)"
      by (simp only: keys_insert_group)
    from Cons.prems(3) True
    have g: "groups_inv L v wd lr N (seen @ [(name, param)]) (insert_group ?k param ?w0 ?sc vars)"
      by (rule groups_inv_step)
    from Cons.prems(4)
    have m: "members_inv L v (seen @ [(name, param)]) (insert_group ?k param ?w0 ?sc vars)"
      by (rule members_inv_step)
    from Cons.IH [OF rest keys g m] step np show ?thesis
      by simp
  qed
qed

lemma groups_inv_empty: "groups_inv L v wd lr N [] []"
  by (simp add: groups_inv_def)

lemma members_inv_empty: "members_inv L v [] []"
  by (simp add: members_inv_def)

text \<open>
  C2. With \<open>vit_name = "eva_clip_g"\<close>, an encoder whose \<open>get_num_layer()\<close> returns
  \<open>vit_num_layers\<close> and which gives every trainable parameter whose name contains
  \<open>visual_encoder\<close> a layer id between \<open>0\<close> and \<open>vit_num_layers + 1\<close>, the method returns a
  list of groups in which every trainable parameter lies in a group whose \<open>weight_decay\<close>
  is \<open>0\<close> if the parameter is one-dimensional or its name ends in \<open>.bias\<close> and the given
  \<open>weight_decay\<close> otherwise, and whose \<open>lr_scale\<close> is
  \<open>lr_scale ** (vit_num_layers + 1 - layer_id)\<close> for the parameter's layer id if its name
  contains \<open>visual_encoder\<close> and \<open>1\<close> otherwise. Every group holds only trainable
  parameters of one decay class, the one its \<open>weight_decay\<close> belongs to.
\<close>

theorem get_optimizer_params_layer_decay:
  assumes "vit_name self = Value ''eva_clip_g''"
    and "visual_encoder self = Value v"
    and "get_num_layer L v [] = Inr vit_num_layers"
    and "\<forall>name param. (name, param) \<in> set (named_parameters self) \<longrightarrow> requires_grad param \<longrightarrow>
           sublist ''visual_encoder'' name \<longrightarrow>
           (\<exists>layer_id. get_num_layer L v (replace ''visual_encoder.'' [] name) = Inr layer_id \<and>
              0 \<le> layer_id \<and> layer_id \<le> vit_num_layers + 1)"
  shows "\<exists>optim_params. get_optimizer_params L weight_decay' lr_scale' self = Inr optim_params \<and>
     (\<forall>name param. (name, param) \<in> set (named_parameters self) \<longrightarrow> requires_grad param \<longrightarrow>
        (\<exists>g. g \<in> set optim_params \<and> param \<in> set (params g) \<and>
           weight_decay g =
             (if length (shape param) = 1 \<or> suffix ''.bias'' name then 0 else weight_decay') \<and>
           (if sublist ''visual_encoder'' name
            then \<exists>layer_id.
                   get_num_layer L v (replace ''visual_encoder.'' [] name) = Inr layer_id \<and>
                   lr_scale g = lr_scale' ^ nat (vit_num_layers + 1 - layer_id)
            else lr_scale g = 1))) \<and>
     (\<forall>g. g \<in> set optim_params \<longrightarrow>
        (\<exists>nd. weight_decay g = (if nd then 0 else weight_decay') \<and>
           (\<forall>p. p \<in> set (params g) \<longrightarrow>
              (\<exists>name. (name, p) \<in> set (named_parameters self) \<and> requires_grad p \<and>
                 (length (shape p) = 1 \<or> suffix ''.bias'' name) = nd))))"
proof -
  let ?ps = "named_parameters self"
  have rng: "\<forall>name param. (name, param) \<in> set ?ps \<longrightarrow> requires_grad param \<longrightarrow>
      in_range L v vit_num_layers name"
  proof (intro allI impI)
    fix name param assume "(name, param) \<in> set ?ps" "requires_grad param"
    show "in_range L v vit_num_layers name"
    proof (cases "sublist ''visual_encoder'' name")
      case True
      with assms(4) \<open>(name, param) \<in> set ?ps\<close> \<open>requires_grad param\<close>
      obtain i where "get_num_layer L v (replace ''visual_encoder.'' [] name) = Inr i"
          "0 \<le> i" "i \<le> vit_num_layers + 1"
        by blast
      with True show ?thesis by (simp add: in_range_def)
    next
      case False
      then show ?thesis by (simp add: in_range_def)
    qed
  qed
  have "fst ` set ([] :: string groups) = fst ` set ([] :: 'c tensor groups)" by simp
  from group_params_inv [OF rng this groups_inv_empty members_inv_empty]
  obtain names' vars' where
    run: "group_params L v weight_decay' (layer_scales lr_scale' vit_num_layers) ?ps ([], []) =
      Inr (names', vars')"
    and g: "groups_inv L v weight_decay' lr_scale' vit_num_layers ?ps vars'"
    and m: "members_inv L v ?ps vars'"
    by (metis append_Nil)
  from assms(1-3) run have res: "get_optimizer_params L weight_decay' lr_scale' self =
      Inr (map snd vars')"
    by (simp add: get_optimizer_params_def)
  have a: "\<forall>name param. (name, param) \<in> set ?ps \<longrightarrow> requires_grad param \<longrightarrow>
        (\<exists>g. g \<in> set (map snd vars') \<and> param \<in> set (params g) \<and>
           weight_decay g =
             (if length (shape param) = 1 \<or> suffix ''.bias'' name then 0 else weight_decay') \<and>
           (if sublist ''visual_encoder'' name
            then \<exists>layer_id.
                   get_num_layer L v (replace ''visual_encoder.'' [] name) = Inr layer_id \<and>
                   lr_scale g = lr_scale' ^ nat (vit_num_layers + 1 - layer_id)
            else lr_scale g = 1))"
  proof (intro allI impI)
    fix name param assume mem: "(name, param) \<in> set ?ps" and rg: "requires_grad param"
    let ?k = "group_key (layer_of L v name) (no_decay name param)"
    from m mem rg obtain gr where gr: "(?k, gr) \<in> set vars'" "param \<in> set (params gr)"
      unfolding members_inv_def by blast
    from g gr(1) obtain layer nd where l: "?k = group_key layer nd"
        "weight_decay gr = (if nd then 0 else weight_decay')"
        "lr_scale gr = scale_of lr_scale' vit_num_layers layer"
      unfolding groups_inv_def by blast
    from group_key_inj [OF l(1)] have same: "layer_of L v name = layer" "no_decay name param = nd"
      by simp_all
    have wd: "weight_decay gr =
        (if length (shape param) = 1 \<or> suffix ''.bias'' name then 0 else weight_decay')"
      using l(2) same(2) by (simp add: no_decay_def)
    have sc: "if sublist ''visual_encoder'' name
            then \<exists>layer_id.
                   get_num_layer L v (replace ''visual_encoder.'' [] name) = Inr layer_id \<and>
                   lr_scale gr = lr_scale' ^ nat (vit_num_layers + 1 - layer_id)
            else lr_scale gr = 1"
    proof (cases "sublist ''visual_encoder'' name")
      case True
      with assms(4) mem rg obtain i where
        "get_num_layer L v (replace ''visual_encoder.'' [] name) = Inr i" by blast
      with True l(3) same(1) show ?thesis
        by (auto simp: layer_of_def scale_of_def)
    next
      case False
      with l(3) same(1) show ?thesis by (auto simp: layer_of_def scale_of_def)
    qed
    from gr(1) have "gr \<in> set (map snd vars')" by force
    with gr(2) wd sc show "\<exists>g. g \<in> set (map snd vars') \<and> param \<in> set (params g) \<and>
           weight_decay g =
             (if length (shape param) = 1 \<or> suffix ''.bias'' name then 0 else weight_decay') \<and>
           (if sublist ''visual_encoder'' name
            then \<exists>layer_id.
                   get_num_layer L v (replace ''visual_encoder.'' [] name) = Inr layer_id \<and>
                   lr_scale g = lr_scale' ^ nat (vit_num_layers + 1 - layer_id)
            else lr_scale g = 1)"
      by blast
  qed
  have b: "\<forall>g. g \<in> set (map snd vars') \<longrightarrow>
        (\<exists>nd. weight_decay g = (if nd then 0 else weight_decay') \<and>
           (\<forall>p. p \<in> set (params g) \<longrightarrow>
              (\<exists>name. (name, p) \<in> set ?ps \<and> requires_grad p \<and>
                 (length (shape p) = 1 \<or> suffix ''.bias'' name) = nd)))"
  proof (intro allI impI)
    fix gr assume "gr \<in> set (map snd vars')"
    then obtain k where "(k, gr) \<in> set vars'" by auto
    with g obtain layer nd where l: "weight_decay gr = (if nd then 0 else weight_decay')"
        "\<forall>p. p \<in> set (params gr) \<longrightarrow> (\<exists>name. (name, p) \<in> set ?ps \<and> requires_grad p \<and>
           layer_of L v name = layer \<and> no_decay name p = nd)"
      unfolding groups_inv_def by blast
    have "\<forall>p. p \<in> set (params gr) \<longrightarrow>
              (\<exists>name. (name, p) \<in> set ?ps \<and> requires_grad p \<and>
                 (length (shape p) = 1 \<or> suffix ''.bias'' name) = nd)"
    proof (intro allI impI)
      fix p assume "p \<in> set (params gr)"
      with l(2) obtain name where "(name, p) \<in> set ?ps" "requires_grad p" "no_decay name p = nd"
        by blast
      then show "\<exists>name. (name, p) \<in> set ?ps \<and> requires_grad p \<and>
                 (length (shape p) = 1 \<or> suffix ''.bias'' name) = nd"
        by (intro exI [of _ name]) (simp add: no_decay_def)
    qed
    with l(1) show "\<exists>nd. weight_decay gr = (if nd then 0 else weight_decay') \<and>
           (\<forall>p. p \<in> set (params gr) \<longrightarrow>
              (\<exists>name. (name, p) \<in> set ?ps \<and> requires_grad p \<and>
                 (length (shape p) = 1 \<or> suffix ''.bias'' name) = nd))"
      by blast
  qed
  from res a b show ?thesis by blast
qed

lemma example_layers:
  "get_num_layer example_optim_lib 2 [] = Inr 2"
  "get_num_layer example_optim_lib 2
     (replace ''visual_encoder.'' [] ''visual_encoder.patch_embed.proj.weight'') = Inr 0"
  "get_num_layer example_optim_lib 2
     (replace ''visual_encoder.'' [] ''visual_encoder.patch_embed.proj.bias'') = Inr 0"
  "get_num_layer example_optim_lib 2
     (replace ''visual_encoder.'' [] ''visual_encoder.blocks.0.attn.weight'') = Inr 1"
  "get_num_layer example_optim_lib 2
     (replace ''visual_encoder.'' [] ''visual_encoder.blocks.1.attn.weight'') = Inr 2"
  by (simp_all add: example_optim_lib_def replace.simps)

theorem get_optimizer_params_layer_decay_witness:
  "\<exists>optim_params.
     get_optimizer_params example_optim_lib (5 / 100) (9 / 10) example_self = Inr optim_params \<and>
     (\<exists>g. g \<in> set optim_params \<and> example_tensor [4, 4] True 3 \<in> set (params g) \<and>
        weight_decay g = 5 / 100 \<and> lr_scale g = (9 / 10) ^ 2) \<and>
     (\<exists>g. g \<in> set optim_params \<and> example_tensor [4] True 2 \<in> set (params g) \<and>
        weight_decay g = 0 \<and> lr_scale g = (9 / 10) ^ 3) \<and>
     (\<exists>g. g \<in> set optim_params \<and> example_tensor [1, 32, 768] True 0 \<in> set (params g) \<and>
        weight_decay g = 5 / 100 \<and> lr_scale g = 1)"
proof -
  have h1: "vit_name example_self = Value ''eva_clip_g''"
    and h2: "visual_encoder example_self = Value 2"
    by (simp_all add: example_self_def)
  have h4: "\<forall>name param. (name, param) \<in> set (named_parameters example_self) \<longrightarrow>
      requires_grad param \<longrightarrow> sublist ''visual_encoder'' name \<longrightarrow>
      (\<exists>layer_id. get_num_layer example_optim_lib 2 (replace ''visual_encoder.'' [] name) =
           Inr layer_id \<and> 0 \<le> layer_id \<and> layer_id \<le> 2 + 1)"
    using example_layers by (auto simp: example_self_def example_tensor_def sublist_code)
  from get_optimizer_params_layer_decay [OF h1 h2 example_layers(1) h4, of "5 / 100" "9 / 10"]
  obtain gs where res: "get_optimizer_params example_optim_lib (5 / 100) (9 / 10) example_self =
      Inr gs"
    and each: "\<And>name param. (name, param) \<in> set (named_parameters example_self) \<Longrightarrow>
      requires_grad param \<Longrightarrow>
      \<exists>g. g \<in> set gs \<and> param \<in> set (params g) \<and>
           weight_decay g =
             (if length (shape param) = 1 \<or> suffix ''.bias'' name then 0 else 5 / 100) \<and>
           (if sublist ''visual_encoder'' name
            then \<exists>layer_id.
                   get_num_layer example_optim_lib 2 (replace ''visual_encoder.'' [] name) =
                     Inr layer_id \<and>
                   lr_scale g = (9 / 10) ^ nat (2 + 1 - layer_id)
            else lr_scale g = 1)"
    by blast
  have a: "\<exists>g. g \<in> set gs \<and> example_tensor [4, 4] True 3 \<in> set (params g) \<and>
        weight_decay g = 5 / 100 \<and> lr_scale g = (9 / 10) ^ 2"
    using each [of "''visual_encoder.blocks.0.attn.weight''" "example_tensor [4, 4] True 3"]
      example_layers(4)
    by (simp add: example_self_def example_tensor_def sublist_code suffix_to_prefix)
  have b: "\<exists>g. g \<in> set gs \<and> example_tensor [4] True 2 \<in> set (params g) \<and>
        weight_decay g = 0 \<and> lr_scale g = (9 / 10) ^ 3"
    using each [of "''visual_encoder.patch_embed.proj.bias''" "example_tensor [4] True 2"]
      example_layers(3)
    by (simp add: example_self_def example_tensor_def sublist_code suffix_to_prefix)
  have c: "\<exists>g. g \<in> set gs \<and> example_tensor [1, 32, 768] True 0 \<in> set (params g) \<and>
        weight_decay g = 5 / 100 \<and> lr_scale g = 1"
    using each [of "''query_tokens''" "example_tensor [1, 32, 768] True 0"]
    by (simp add: example_self_def example_tensor_def sublist_code suffix_to_prefix)
  from res a b c show ?thesis by blast
qed

end
